theory Spec2Isabelle
  imports Complex_Main
begin

section \<open>The pricing engine of the Jet Stream Clean quote app\<close>

text \<open>
  The engine is the \<^verbatim>\<open>useMemo\<close> callback of \<^verbatim>\<open>src/App.js\<close> (lines 183-331): it
  reads the component's state variables and the constant \<^verbatim>\<open>RATES\<close>, pushes line items
  onto the local array \<^verbatim>\<open>lines\<close>, accumulates the local \<^verbatim>\<open>sub\<close>, and returns
  \<^verbatim>\<open>{ lines, subtotal: sub, total: sub }\<close>.

  Numbers. The state variables that hold counts are written by the handlers only through
  \<^verbatim>\<open>parseInt\<close>, \<^verbatim>\<open>Math.max\<close>, \<^verbatim>\<open>Math.min\<close> and \<^verbatim>\<open>+ 1\<close> / \<^verbatim>\<open>- 1\<close>, so they are modelled as
  \<open>int\<close>; the engine itself does not clamp them, and the model does not either.
  \<^verbatim>\<open>NaN\<close>, which \<^verbatim>\<open>parseInt\<close> returns for a string without leading digits, is not a
  value of the model.

  Amounts are JavaScript numbers, that is IEEE 754 doubles. A double is a rational number,
  and the model holds amounts as \<open>rat\<close>.
  \<^item> Up to the rug block every amount is a product or a sum of integers, or of an integer
    and \<^verbatim>\<open>0.5\<close> (tile). Double arithmetic is exact on such values as long as they stay
    below \<open>2\<^sup>5\<^sup>3\<close>, and the model computes them exactly. The argument of
    \<^verbatim>\<open>Math.round\<close> in the add-on price is computed exactly too; on the 23 base prices of
    the rate table the rounded result is the one the doubles give.
  \<^item> The pest prices \<^verbatim>\<open>49.99\<close> and \<^verbatim>\<open>129.99\<close> are not binary fractions. They are
    modelled as the doubles these literals denote, and from the pest block on every
    \<^verbatim>\<open>+\<close> and \<^verbatim>\<open>-\<close> on \<^verbatim>\<open>sub\<close> is rounded to the nearest double, as the code's
    arithmetic does (\<open>addDouble\<close>, \<open>subDouble\<close>).

  The formatter \<^verbatim>\<open>buildQuoteText\<close> and the markup are outside this development.
\<close>

subsection \<open>Keys of the rate table and of the selection\<close>

text \<open>The package keys \<^verbatim>\<open>standard\<close>, \<^verbatim>\<open>reset\<close>, \<^verbatim>\<open>deluxe\<close>.\<close>

datatype pkg = Standard | Reset | Deluxe

text \<open>The keys of \<^verbatim>\<open>RATES.carpets\<close>.\<close>

datatype area = Rooms | Stairs | DownHall | UpLanding | WalkIn

text \<open>The keys of \<^verbatim>\<open>RATES.upholstery\<close>.\<close>

datatype uphKey =
    Ottoman | AccentChair | DiningChair | Recliner | OversizedChair | ThrowPillow
  | Loveseat | Couch3 | Couch4 | Sectional
  | MattressTwin | MattressFull | MattressQueen | MattressKing

text \<open>The keys of \<^verbatim>\<open>RATES.rugs\<close>.\<close>

datatype rugSize = Small | Medium | Large | XLarge | XXLarge | Huge | Massive

subsection \<open>Doubles\<close>

text \<open>
  Rounding a rational to the nearest double: 53 significant bits, a tie going to the even
  significand. The exponent range is not bounded (no overflow to \<^verbatim>\<open>Infinity\<close>, no
  subnormal numbers): the amounts of a quote are far from both ends.
\<close>

text \<open>The number of binary digits of a natural number.\<close>

fun bitLength :: "nat \<Rightarrow> nat" where
  "bitLength n = (if n = 0 then 0 else Suc (bitLength (n div 2)))"

declare bitLength.simps [simp del]

text \<open>Powers of two with an integer exponent.\<close>

definition pow2 :: "int \<Rightarrow> rat" where
  "pow2 i = (if 0 \<le> i then 2 ^ nat i else 1 / 2 ^ nat (- i))"

text \<open>For \<open>x > 0\<close>, the exponent \<open>e\<close> with \<open>2\<^sup>e \<le> x < 2\<^sup>e\<^sup>+\<^sup>1\<close>.\<close>

definition binaryExponent :: "rat \<Rightarrow> int" where
  "binaryExponent x =
     (if 1 \<le> x then int (bitLength (nat \<lfloor>x\<rfloor>)) - 1
      else - int (bitLength (nat (\<lceil>1 / x\<rceil> - 1))))"

text \<open>The nearest integer, a tie going to the even one.\<close>

definition roundHalfEven :: "rat \<Rightarrow> int" where
  "roundHalfEven y =
     (let f = \<lfloor>y\<rfloor>; r = y - of_int f
      in if r < 1 / 2 then f else if 1 / 2 < r then f + 1 else if even f then f else f + 1)"

text \<open>
  The double nearest to \<open>x\<close>: \<open>x\<close> is rounded to a multiple of the unit in the last
  place of its binade.
\<close>

definition toDouble :: "rat \<Rightarrow> rat" where
  "toDouble x =
     (if x = 0 then 0
      else
        let u = pow2 (binaryExponent \<bar>x\<bar> - 52)
        in sgn x * of_int (roundHalfEven (\<bar>x\<bar> / u)) * u)"

text \<open>\<^verbatim>\<open>x + y\<close> and \<^verbatim>\<open>x - y\<close> on doubles: the exact result, rounded.\<close>

definition addDouble :: "rat \<Rightarrow> rat \<Rightarrow> rat" where
  "addDouble x y = toDouble (x + y)"

definition subDouble :: "rat \<Rightarrow> rat \<Rightarrow> rat" where
  "subDouble x y = toDouble (x - y)"

subsection \<open>\<^verbatim>\<open>RATES\<close>\<close>

definition minCharge :: rat where
  "minCharge = 135"

text \<open>\<^verbatim>\<open>RATES.serviceZones.extended.fee\<close>.\<close>

definition extendedFee :: rat where
  "extendedFee = 45"

text \<open>\<^verbatim>\<open>Object.keys\<close> of every \<^verbatim>\<open>RATES.carpets.*\<close> object, in insertion order.\<close>

definition pkgKeys :: "pkg list" where
  "pkgKeys = [Standard, Reset, Deluxe]"

fun carpetsPrice :: "area \<Rightarrow> pkg \<Rightarrow> rat" where
  "carpetsPrice Rooms Standard = 45"
| "carpetsPrice Rooms Reset = 90"
| "carpetsPrice Rooms Deluxe = 135"
| "carpetsPrice Stairs Standard = 65"
| "carpetsPrice Stairs Reset = 130"
| "carpetsPrice Stairs Deluxe = 170"
| "carpetsPrice DownHall Standard = 20"
| "carpetsPrice DownHall Reset = 40"
| "carpetsPrice DownHall Deluxe = 60"
| "carpetsPrice UpLanding Standard = 65"
| "carpetsPrice UpLanding Reset = 130"
| "carpetsPrice UpLanding Deluxe = 175"
| "carpetsPrice WalkIn Standard = 20"
| "carpetsPrice WalkIn Reset = 40"
| "carpetsPrice WalkIn Deluxe = 60"

fun pkgName :: "pkg \<Rightarrow> string" where
  "pkgName Standard = ''Standard Steam Clean''"
| "pkgName Reset = ''Factory Reset Clean''"
| "pkgName Deluxe = ''Factory Reset Deluxe''"

fun areaSuffix :: "area \<Rightarrow> string" where
  "areaSuffix Rooms = ''''"
| "areaSuffix Stairs = '' (Stairs)''"
| "areaSuffix DownHall = '' (Downstairs Hallway)''"
| "areaSuffix UpLanding = '' (Upstairs Landing)''"
| "areaSuffix WalkIn = '' (Walk-In Closet)''"

text \<open>
  The fifteen \<^verbatim>\<open>label\<close> strings of \<^verbatim>\<open>RATES.carpets\<close>: each is the package name, followed
  by the area in brackets for every area but \<^verbatim>\<open>rooms\<close>.
\<close>

definition carpetsLabel :: "area \<Rightarrow> pkg \<Rightarrow> string" where
  "carpetsLabel a k = pkgName k @ areaSuffix a"

text \<open>\<^verbatim>\<open>RATES.tile.rate\<close>.\<close>

definition tileRate :: rat where
  "tileRate = 1 / 2"

fun upholsteryLabel :: "uphKey \<Rightarrow> string" where
  "upholsteryLabel Ottoman = ''Ottoman''"
| "upholsteryLabel AccentChair = ''Accent Chair''"
| "upholsteryLabel DiningChair = ''Dining Chair''"
| "upholsteryLabel Recliner = ''Recliner Chair''"
| "upholsteryLabel OversizedChair = ''Oversized Double Chair''"
| "upholsteryLabel ThrowPillow = ''Throw Pillow''"
| "upholsteryLabel Loveseat = ''Loveseat''"
| "upholsteryLabel Couch3 = ''Couch (3 Cushions)''"
| "upholsteryLabel Couch4 = ''Couch (4 Cushions)''"
| "upholsteryLabel Sectional = ''Sectional (by cushions)''"
| "upholsteryLabel MattressTwin = ''Twin Mattress''"
| "upholsteryLabel MattressFull = ''Full Mattress''"
| "upholsteryLabel MattressQueen = ''Queen Mattress''"
| "upholsteryLabel MattressKing = ''King Mattress''"

fun upholsteryPrice :: "uphKey \<Rightarrow> rat" where
  "upholsteryPrice Ottoman = 40"
| "upholsteryPrice AccentChair = 40"
| "upholsteryPrice DiningChair = 25"
| "upholsteryPrice Recliner = 65"
| "upholsteryPrice OversizedChair = 65"
| "upholsteryPrice ThrowPillow = 5"
| "upholsteryPrice Loveseat = 85"
| "upholsteryPrice Couch3 = 100"
| "upholsteryPrice Couch4 = 140"
| "upholsteryPrice Sectional = 0"
| "upholsteryPrice MattressTwin = 50"
| "upholsteryPrice MattressFull = 65"
| "upholsteryPrice MattressQueen = 80"
| "upholsteryPrice MattressKing = 95"

text \<open>\<^verbatim>\<open>RATES.sectionalPrices\<close>: an object with the keys 4 to 12.\<close>

definition sectionalPrices :: "int \<rightharpoonup> rat" where
  "sectionalPrices = map_of
     [(4, 140), (5, 195), (6, 235), (7, 275), (8, 315), (9, 355), (10, 395), (11, 435),
      (12, 485)]"

definition deodorizerCap :: rat where
  "deodorizerCap = 20"

definition fabricProtectorCap :: rat where
  "fabricProtectorCap = 50"

definition deodorizerPct :: rat where
  "deodorizerPct = 15 / 100"

definition fabricProtectorPct :: rat where
  "fabricProtectorPct = 20 / 100"

fun rugsLabel :: "rugSize \<Rightarrow> string" where
  "rugsLabel Small = ''Below 5x8''"
| "rugsLabel Medium = ''5x8 to 6x9''"
| "rugsLabel Large = ''6x9 to 8x10''"
| "rugsLabel XLarge = ''8x10 to 9x12''"
| "rugsLabel XXLarge = ''9x12 to 10x14''"
| "rugsLabel Huge = ''10x14 to 12x18''"
| "rugsLabel Massive = ''12x18 to 20x20''"

fun rugsPrice :: "rugSize \<Rightarrow> pkg \<Rightarrow> rat" where
  "rugsPrice Small Standard = 50"
| "rugsPrice Small Reset = 75"
| "rugsPrice Small Deluxe = 100"
| "rugsPrice Medium Standard = 60"
| "rugsPrice Medium Reset = 90"
| "rugsPrice Medium Deluxe = 120"
| "rugsPrice Large Standard = 75"
| "rugsPrice Large Reset = 112"
| "rugsPrice Large Deluxe = 150"
| "rugsPrice XLarge Standard = 90"
| "rugsPrice XLarge Reset = 135"
| "rugsPrice XLarge Deluxe = 180"
| "rugsPrice XXLarge Standard = 110"
| "rugsPrice XXLarge Reset = 165"
| "rugsPrice XXLarge Deluxe = 220"
| "rugsPrice Huge Standard = 162"
| "rugsPrice Huge Reset = 243"
| "rugsPrice Huge Deluxe = 324"
| "rugsPrice Massive Standard = 300"
| "rugsPrice Massive Reset = 450"
| "rugsPrice Massive Deluxe = 600"

text \<open>
  \<^verbatim>\<open>RATES.pest\<close>. The literals \<^verbatim>\<open>49.99\<close> and \<^verbatim>\<open>129.99\<close> denote the doubles nearest to
  these decimal numbers.
\<close>

definition pestMonthlyPrice :: rat where
  "pestMonthlyPrice = toDouble (4999 / 100)"

definition pestOneTimePrice :: rat where
  "pestOneTimePrice = toDouble (12999 / 100)"

definition flea1600 :: rat where
  "flea1600 = 149"

definition flea3200 :: rat where
  "flea3200 = 300"

subsection \<open>The selection: the state variables the engine reads\<close>

record selection =
  zone :: string
  carpetRooms :: "pkg \<Rightarrow> int"
  carpetStairs :: "pkg \<Rightarrow> int"
  downHall :: "pkg \<Rightarrow> int"
  upLanding :: "pkg \<Rightarrow> int"
  walkIn :: "pkg \<Rightarrow> int"
  tileTotalSqft :: int
  uphQty :: "uphKey \<Rightarrow> int"
  uphDeo :: "uphKey \<Rightarrow> bool"
  uphProt :: "uphKey \<Rightarrow> bool"
  sectionalCushions :: int
  sectionalQty :: int
  sectionalDeo :: bool
  sectionalProt :: bool
  rugPackages :: "rugSize \<Rightarrow> pkg \<Rightarrow> int"
  pestMonthly :: bool
  pestOneTime :: bool
  pestHomeSqft :: int

text \<open>The arrays \<^verbatim>\<open>uphKeys\<close> (the sectional is not in it) and \<^verbatim>\<open>rugSizes\<close>.\<close>

definition uphKeys :: "uphKey list" where
  "uphKeys =
     [Ottoman, AccentChair, DiningChair, Recliner, OversizedChair, ThrowPillow, Loveseat,
      Couch3, Couch4, MattressTwin, MattressFull, MattressQueen, MattressKing]"

definition rugSizes :: "rugSize list" where
  "rugSizes = [Small, Medium, Large, XLarge, XXLarge, Huge, Massive]"

subsection \<open>Line items and the summary\<close>

record line =
  label :: string
  qty :: int
  each :: rat
  total :: rat

record summary =
  lines :: "line list"
  subtotal :: rat
  total :: rat

subsection \<open>JavaScript primitives the engine uses\<close>

text \<open>\<^verbatim>\<open>x || 0\<close> on a number: 0 when \<^verbatim>\<open>x\<close> is falsy (that is, 0), else \<^verbatim>\<open>x\<close>.\<close>

definition orZero :: "'a::zero \<Rightarrow> 'a" where
  "orZero x = (if x = 0 then 0 else x)"

text \<open>\<^verbatim>\<open>Math.round\<close>: the nearest integer, a tie going up.\<close>

definition mathRound :: "rat \<Rightarrow> rat" where
  "mathRound x = of_int \<lfloor>x + 1 / 2\<rfloor>"

text \<open>
  The decimal digits of an integer, as string concatenation with a number gives them
  (for integers below \<open>10\<^sup>2\<^sup>1\<close> in absolute value, where JavaScript prints all digits).
\<close>

definition digitChar :: "nat \<Rightarrow> char" where
  "digitChar d = char_of (48 + d)"

fun natString :: "nat \<Rightarrow> string" where
  "natString n =
     (if n < 10 then [digitChar n] else natString (n div 10) @ [digitChar (n mod 10)])"

declare natString.simps [simp del]

definition numberString :: "int \<Rightarrow> string" where
  "numberString i =
     (if i < 0 then CHR ''-'' # natString (nat (- i)) else natString (nat i))"

subsection \<open>The engine, block by block\<close>

text \<open>
  The locals \<^verbatim>\<open>lines\<close> and \<^verbatim>\<open>sub\<close> are threaded as a pair; \<^verbatim>\<open>lines.push(l)\<close> appends.
\<close>

type_synonym acc = "line list \<times> rat"

text \<open>
  The body of one \<^verbatim>\<open>Object.keys(RATES.carpets.X).forEach\<close> callback (lines 187-230; the
  five blocks differ only in the area and in the state variable read).
\<close>

fun carpetStep :: "area \<Rightarrow> (pkg \<Rightarrow> int) \<Rightarrow> acc \<Rightarrow> pkg \<Rightarrow> acc" where
  "carpetStep a qtys (ls, sub) k =
     (let q = orZero (qtys k) in
      if q = 0 then (ls, sub)
      else
        let e = carpetsPrice a k;
            t = of_int q * e
        in (ls @ [\<lparr>label = carpetsLabel a k, qty = q, each = e, total = t\<rparr>], sub + t))"

definition carpetBlock :: "area \<Rightarrow> (pkg \<Rightarrow> int) \<Rightarrow> acc \<Rightarrow> acc" where
  "carpetBlock a qtys st = foldl (carpetStep a qtys) st pkgKeys"

text \<open>Tile (lines 232-237): the subtotal is raised before the push.\<close>

fun tileBlock :: "int \<Rightarrow> acc \<Rightarrow> acc" where
  "tileBlock sqft (ls, sub) =
     (let t = max 0 (orZero sqft) in
      if t > 0 then
        let tot = of_int t * tileRate
        in (ls @ [\<lparr>label = ''Tile and Grout Cleaning'', qty = t, each = tileRate,
                    total = tot\<rparr>], sub + tot)
      else (ls, sub))"

text \<open>The unit price of an add-on (lines 250, 256, 271, 277).\<close>

definition deoEach :: "rat \<Rightarrow> rat" where
  "deoEach base = min deodorizerCap (mathRound (base * deodorizerPct))"

definition fabricEach :: "rat \<Rightarrow> rat" where
  "fabricEach base = min fabricProtectorCap (mathRound (base * fabricProtectorPct))"

text \<open>\<^verbatim>\<open>RATES.sectionalPrices[sectionalCushions] || 0\<close>: a missing key reads \<^verbatim>\<open>undefined\<close>.\<close>

definition sectionalBase :: "int \<Rightarrow> rat" where
  "sectionalBase c = (case sectionalPrices c of None \<Rightarrow> 0 | Some p \<Rightarrow> orZero p)"

text \<open>Sectional (lines 244-261).\<close>

fun sectionalBlock :: "int \<Rightarrow> int \<Rightarrow> bool \<Rightarrow> bool \<Rightarrow> acc \<Rightarrow> acc" where
  "sectionalBlock cushions q deo prot (ls, sub) =
     (if q > 0 then
        let base = sectionalBase cushions;
            sectionalTotal = base * of_int q;
            sub = sub + sectionalTotal;
            ls = ls @ [\<lparr>label = ''Sectional - '' @ numberString cushions @ '' cushions'',
                         qty = q, each = base, total = sectionalTotal\<rparr>];
            (ls, sub) =
              (if deo then
                 let e = deoEach base;
                     t = e * of_int q
                 in (ls @ [\<lparr>label = ''Sectional - Deodorizer'', qty = q, each = e,
                             total = t\<rparr>], sub + t)
               else (ls, sub));
            (ls, sub) =
              (if prot then
                 let e = fabricEach base;
                     t = e * of_int q
                 in (ls @ [\<lparr>label = ''Sectional - Fabric Protector'', qty = q, each = e,
                             total = t\<rparr>], sub + t)
               else (ls, sub))
        in (ls, sub)
      else (ls, sub))"

text \<open>The body of the \<^verbatim>\<open>uphKeys.forEach\<close> callback (lines 263-282).\<close>

fun uphStep :: "(uphKey \<Rightarrow> int) \<Rightarrow> (uphKey \<Rightarrow> bool) \<Rightarrow> (uphKey \<Rightarrow> bool) \<Rightarrow> acc \<Rightarrow> uphKey \<Rightarrow> acc"
  where
  "uphStep qtys deo prot (ls, sub) k =
     (let base = upholsteryPrice k;
          q = orZero (qtys k)
      in if q = 0 then (ls, sub)
      else
        let baseTotal = base * of_int q;
            sub = sub + baseTotal;
            ls = ls @ [\<lparr>label = upholsteryLabel k, qty = q, each = base, total = baseTotal\<rparr>];
            (ls, sub) =
              (if deo k then
                 let e = deoEach base;
                     t = e * of_int q
                 in (ls @ [\<lparr>label = upholsteryLabel k @ '' - Deodorizer'', qty = q, each = e,
                             total = t\<rparr>], sub + t)
               else (ls, sub));
            (ls, sub) =
              (if prot k then
                 let e = fabricEach base;
                     t = e * of_int q
                 in (ls @ [\<lparr>label = upholsteryLabel k @ '' - Fabric Protector'', qty = q,
                             each = e, total = t\<rparr>], sub + t)
               else (ls, sub))
        in (ls, sub))"

definition uphBlock :: "(uphKey \<Rightarrow> int) \<Rightarrow> (uphKey \<Rightarrow> bool) \<Rightarrow> (uphKey \<Rightarrow> bool) \<Rightarrow> acc \<Rightarrow> acc"
  where
  "uphBlock qtys deo prot st = foldl (uphStep qtys deo prot) st uphKeys"

text \<open>Rugs (lines 284-293): the inner callback, the inner loop and the outer loop
  (the source's \<^verbatim>\<open>size\<close> is \<open>sz\<close> here).\<close>

fun rugStep :: "(rugSize \<Rightarrow> pkg \<Rightarrow> int) \<Rightarrow> rugSize \<Rightarrow> acc \<Rightarrow> pkg \<Rightarrow> acc" where
  "rugStep rugs sz (ls, sub) p =
     (let q = orZero (rugs sz p) in
      if q = 0 then (ls, sub)
      else
        let e = rugsPrice sz p;
            t = of_int q * e
        in (ls @ [\<lparr>label = ''Area Rug '' @ rugsLabel sz @ '' - '' @
                      (if p = Standard then ''Standard Steam Clean''
                       else if p = Reset then ''Factory Reset Clean''
                       else ''Factory Reset Deluxe''),
                    qty = q, each = e, total = t\<rparr>], sub + t))"

definition rugSizeStep :: "(rugSize \<Rightarrow> pkg \<Rightarrow> int) \<Rightarrow> acc \<Rightarrow> rugSize \<Rightarrow> acc" where
  "rugSizeStep rugs st sz = foldl (rugStep rugs sz) st [Standard, Reset, Deluxe]"

definition rugBlock :: "(rugSize \<Rightarrow> pkg \<Rightarrow> int) \<Rightarrow> acc \<Rightarrow> acc" where
  "rugBlock rugs st = foldl (rugSizeStep rugs) st rugSizes"

text \<open>
  Pest control (lines 295-319). From here on \<^verbatim>\<open>sub\<close> can hold a value that is not a
  multiple of \<^verbatim>\<open>0.5\<close>, and \<^verbatim>\<open>sub + x\<close> is the rounded sum.
\<close>

fun pestMonthlyBlock :: "bool \<Rightarrow> acc \<Rightarrow> acc" where
  "pestMonthlyBlock on (ls, sub) =
     (if on then
        let e = pestMonthlyPrice
        in (ls @ [\<lparr>label = ''Monthly General Pest Control (AL only)'', qty = 1, each = e,
                    total = e\<rparr>], addDouble sub e)
      else (ls, sub))"

fun pestOneTimeBlock :: "bool \<Rightarrow> acc \<Rightarrow> acc" where
  "pestOneTimeBlock on (ls, sub) =
     (if on then
        let e = pestOneTimePrice
        in (ls @ [\<lparr>label = ''One-Time General Pest Control (AL only)'', qty = 1, each = e,
                    total = e\<rparr>], addDouble sub e)
      else (ls, sub))"

text \<open>
  The locals \<^verbatim>\<open>label\<close> and \<^verbatim>\<open>price\<close> after the tier selection (lines 306-314), for a
  positive square footage.
\<close>

definition fleaTier :: "int \<Rightarrow> string \<times> rat" where
  "fleaTier sqft =
     (let lbl = ''Move-Out Flea and Tick (AL only)'';
          price = 0
      in if sqft \<le> 1600 then (lbl, flea1600)
         else if sqft \<le> 3200 then (lbl, flea3200)
         else (lbl @ '' - custom quote'', price))"

fun fleaBlock :: "int \<Rightarrow> acc \<Rightarrow> acc" where
  "fleaBlock sqft (ls, sub) =
     (if sqft > 0 then
        let (lbl, price) = fleaTier sqft
        in if price > 0 then
             (ls @ [\<lparr>label = lbl, qty = 1, each = price, total = price\<rparr>],
              addDouble sub price)
           else (ls, sub)
      else (ls, sub))"

text \<open>Zone fee (lines 321-325).\<close>

fun zoneBlock :: "string \<Rightarrow> acc \<Rightarrow> acc" where
  "zoneBlock z (ls, sub) =
     (let zoneFee = (if z = ''extended'' then extendedFee else 0) in
      if zoneFee > 0 then
        (ls @ [\<lparr>label = ''Service Zone Fee'', qty = 1, each = zoneFee, total = zoneFee\<rparr>],
         addDouble sub zoneFee)
      else (ls, sub))"

text \<open>Minimum charge (lines 326-330).\<close>

fun minChargeBlock :: "acc \<Rightarrow> acc" where
  "minChargeBlock (ls, sub) =
     (if sub < minCharge \<and> sub > 0 then
        let diff = subDouble minCharge sub
        in (ls @ [\<lparr>label = ''Minimum Charge Adjustment'', qty = 1, each = diff,
                    total = diff\<rparr>], addDouble sub diff)
      else (ls, sub))"

text \<open>
  The state of \<^verbatim>\<open>lines\<close> and \<^verbatim>\<open>sub\<close> when line 326 is reached: every block but the
  minimum charge has run, in the order of the source.
\<close>

definition rawQuote :: "selection \<Rightarrow> acc" where
  "rawQuote sel =
     (let st = ([], 0);
          st = carpetBlock Rooms (carpetRooms sel) st;
          st = carpetBlock Stairs (carpetStairs sel) st;
          st = carpetBlock DownHall (downHall sel) st;
          st = carpetBlock UpLanding (upLanding sel) st;
          st = carpetBlock WalkIn (walkIn sel) st;
          st = tileBlock (tileTotalSqft sel) st;
          st = sectionalBlock (sectionalCushions sel) (sectionalQty sel) (sectionalDeo sel)
                 (sectionalProt sel) st;
          st = uphBlock (uphQty sel) (uphDeo sel) (uphProt sel) st;
          st = rugBlock (rugPackages sel) st;
          st = pestMonthlyBlock (pestMonthly sel) st;
          st = pestOneTimeBlock (pestOneTime sel) st;
          st = fleaBlock (pestHomeSqft sel) st;
          st = zoneBlock (zone sel) st
      in st)"

text \<open>The whole callback: \<^verbatim>\<open>return { lines, subtotal: sub, total: sub }\<close>.\<close>

definition computeQuote :: "selection \<Rightarrow> summary" where
  "computeQuote sel =
     (let (ls, sub) = minChargeBlock (rawQuote sel)
      in \<lparr>lines = ls, subtotal = sub, total = sub\<rparr>)"

text \<open>The initial state of the component (lines 121-173), with the zone as a parameter.\<close>

definition initialSelection :: "string \<Rightarrow> selection" where
  "initialSelection z =
     \<lparr>zone = z,
      carpetRooms = (\<lambda>k. 0), carpetStairs = (\<lambda>k. 0), downHall = (\<lambda>k. 0),
      upLanding = (\<lambda>k. 0), walkIn = (\<lambda>k. 0),
      tileTotalSqft = 0,
      uphQty = (\<lambda>k. 0), uphDeo = (\<lambda>k. False), uphProt = (\<lambda>k. False),
      sectionalCushions = 6, sectionalQty = 0, sectionalDeo = False, sectionalProt = False,
      rugPackages = (\<lambda>sz p. 0),
      pestMonthly = False, pestOneTime = False, pestHomeSqft = 0\<rparr>"

subsection \<open>What each block pushes\<close>

text \<open>
  The lines each block of the engine contributes, written as lists. They are related to
  the blocks above by the lemmas of the next section.
\<close>

definition sumTotals :: "line list \<Rightarrow> rat" where
  "sumTotals ls = sum_list (map line.total ls)"

definition carpetLine :: "area \<Rightarrow> pkg \<Rightarrow> int \<Rightarrow> line" where
  "carpetLine a k q =
     \<lparr>label = carpetsLabel a k, qty = q, each = carpetsPrice a k,
      total = of_int q * carpetsPrice a k\<rparr>"

definition carpetLines :: "area \<Rightarrow> (pkg \<Rightarrow> int) \<Rightarrow> line list" where
  "carpetLines a qtys =
     concat (map (\<lambda>k. if qtys k = 0 then [] else [carpetLine a k (qtys k)])
       [Standard, Reset, Deluxe])"

definition tileLines :: "int \<Rightarrow> line list" where
  "tileLines sqft =
     (if sqft > 0 then
        [\<lparr>label = ''Tile and Grout Cleaning'', qty = sqft, each = 1 / 2,
          total = of_int sqft * (1 / 2)\<rparr>]
      else [])"

definition sectionalLine :: "int \<Rightarrow> int \<Rightarrow> line" where
  "sectionalLine c q =
     \<lparr>label = ''Sectional - '' @ numberString c @ '' cushions'', qty = q,
      each = sectionalBase c, total = sectionalBase c * of_int q\<rparr>"

definition addOnLine :: "string \<Rightarrow> int \<Rightarrow> rat \<Rightarrow> line" where
  "addOnLine lbl q e = \<lparr>label = lbl, qty = q, each = e, total = e * of_int q\<rparr>"

definition sectionalLines :: "int \<Rightarrow> int \<Rightarrow> bool \<Rightarrow> bool \<Rightarrow> line list" where
  "sectionalLines c q deo prot =
     (if q > 0 then
        [sectionalLine c q]
        @ (if deo then [addOnLine ''Sectional - Deodorizer'' q (deoEach (sectionalBase c))]
           else [])
        @ (if prot then
             [addOnLine ''Sectional - Fabric Protector'' q (fabricEach (sectionalBase c))]
           else [])
      else [])"

definition uphLine :: "uphKey \<Rightarrow> int \<Rightarrow> line" where
  "uphLine k q =
     \<lparr>label = upholsteryLabel k, qty = q, each = upholsteryPrice k,
      total = upholsteryPrice k * of_int q\<rparr>"

definition uphItemLines ::
  "(uphKey \<Rightarrow> int) \<Rightarrow> (uphKey \<Rightarrow> bool) \<Rightarrow> (uphKey \<Rightarrow> bool) \<Rightarrow> uphKey \<Rightarrow> line list" where
  "uphItemLines qtys deo prot k =
     (if qtys k = 0 then []
      else
        [uphLine k (qtys k)]
        @ (if deo k then
             [addOnLine (upholsteryLabel k @ '' - Deodorizer'') (qtys k)
                (deoEach (upholsteryPrice k))]
           else [])
        @ (if prot k then
             [addOnLine (upholsteryLabel k @ '' - Fabric Protector'') (qtys k)
                (fabricEach (upholsteryPrice k))]
           else []))"

definition uphLines ::
  "(uphKey \<Rightarrow> int) \<Rightarrow> (uphKey \<Rightarrow> bool) \<Rightarrow> (uphKey \<Rightarrow> bool) \<Rightarrow> line list" where
  "uphLines qtys deo prot = concat (map (uphItemLines qtys deo prot) uphKeys)"

definition rugLine :: "rugSize \<Rightarrow> pkg \<Rightarrow> int \<Rightarrow> line" where
  "rugLine sz p q =
     \<lparr>label = ''Area Rug '' @ rugsLabel sz @ '' - '' @ pkgName p, qty = q,
      each = rugsPrice sz p, total = of_int q * rugsPrice sz p\<rparr>"

definition rugSizeLines :: "(rugSize \<Rightarrow> pkg \<Rightarrow> int) \<Rightarrow> rugSize \<Rightarrow> line list" where
  "rugSizeLines rugs sz =
     concat (map (\<lambda>p. if rugs sz p = 0 then [] else [rugLine sz p (rugs sz p)])
       [Standard, Reset, Deluxe])"

definition rugLines :: "(rugSize \<Rightarrow> pkg \<Rightarrow> int) \<Rightarrow> line list" where
  "rugLines rugs = concat (map (rugSizeLines rugs) rugSizes)"

definition flatLine :: "string \<Rightarrow> rat \<Rightarrow> line" where
  "flatLine lbl e = \<lparr>label = lbl, qty = 1, each = e, total = e\<rparr>"

definition pestMonthlyLines :: "bool \<Rightarrow> line list" where
  "pestMonthlyLines on =
     (if on then [flatLine ''Monthly General Pest Control (AL only)'' pestMonthlyPrice]
      else [])"

definition pestOneTimeLines :: "bool \<Rightarrow> line list" where
  "pestOneTimeLines on =
     (if on then [flatLine ''One-Time General Pest Control (AL only)'' pestOneTimePrice]
      else [])"

definition fleaLines :: "int \<Rightarrow> line list" where
  "fleaLines sqft =
     (if 0 < sqft \<and> sqft \<le> 1600 then [flatLine ''Move-Out Flea and Tick (AL only)'' 149]
      else if 1600 < sqft \<and> sqft \<le> 3200 then
        [flatLine ''Move-Out Flea and Tick (AL only)'' 300]
      else [])"

definition zoneLines :: "string \<Rightarrow> line list" where
  "zoneLines z = (if z = ''extended'' then [flatLine ''Service Zone Fee'' 45] else [])"

definition minChargeLines :: "rat \<Rightarrow> line list" where
  "minChargeLines s =
     (if 0 < s \<and> s < 135 then [flatLine ''Minimum Charge Adjustment'' (subDouble 135 s)]
      else [])"

text \<open>
  The lines of the blocks that compute exactly (carpet, tile, upholstery, rugs), and the
  lines of the blocks that add to \<^verbatim>\<open>sub\<close> with rounding (pest control, zone fee).
\<close>

definition categoryLines :: "selection \<Rightarrow> line list" where
  "categoryLines sel =
     carpetLines Rooms (carpetRooms sel)
     @ carpetLines Stairs (carpetStairs sel)
     @ carpetLines DownHall (downHall sel)
     @ carpetLines UpLanding (upLanding sel)
     @ carpetLines WalkIn (walkIn sel)
     @ tileLines (tileTotalSqft sel)
     @ sectionalLines (sectionalCushions sel) (sectionalQty sel) (sectionalDeo sel)
         (sectionalProt sel)
     @ uphLines (uphQty sel) (uphDeo sel) (uphProt sel)
     @ rugLines (rugPackages sel)"

definition lateLines :: "selection \<Rightarrow> line list" where
  "lateLines sel =
     pestMonthlyLines (pestMonthly sel)
     @ pestOneTimeLines (pestOneTime sel)
     @ fleaLines (pestHomeSqft sel)
     @ zoneLines (zone sel)"

text \<open>Every line but the adjustment, in the traversal order of the categories.\<close>

definition rawLines :: "selection \<Rightarrow> line list" where
  "rawLines sel = categoryLines sel @ lateLines sel"

text \<open>The running sum the code keeps: the totals of \<open>ls\<close> added to \<open>s\<close> one by one.\<close>

definition sumFrom :: "rat \<Rightarrow> line list \<Rightarrow> rat" where
  "sumFrom s ls = foldl addDouble s (map line.total ls)"

text \<open>The value of \<^verbatim>\<open>sub\<close> when the minimum-charge test is reached.\<close>

definition rawSub :: "selection \<Rightarrow> rat" where
  "rawSub sel = sumFrom (sumTotals (categoryLines sel)) (lateLines sel)"

definition orderedLines :: "selection \<Rightarrow> line list" where
  "orderedLines sel = rawLines sel @ minChargeLines (rawSub sel)"

subsection \<open>Predicates on selections and lines used in the statements\<close>

definition isAdjustment :: "line \<Rightarrow> bool" where
  "isAdjustment l \<longleftrightarrow> label l = ''Minimum Charge Adjustment''"

definition isFleaTick :: "line \<Rightarrow> bool" where
  "isFleaTick l \<longleftrightarrow> take 32 (label l) = ''Move-Out Flea and Tick (AL only)''"

text \<open>A line that is neither the adjustment nor a flea and tick line.\<close>

definition otherLine :: "line \<Rightarrow> bool" where
  "otherLine l \<longleftrightarrow> \<not> isAdjustment l \<and> \<not> isFleaTick l"

definition areas :: "area list" where
  "areas = [Rooms, Stairs, DownHall, UpLanding, WalkIn]"

text \<open>The state variable that holds the quantities of a carpet area.\<close>

fun carpetQty :: "selection \<Rightarrow> area \<Rightarrow> pkg \<Rightarrow> int" where
  "carpetQty sel Rooms = carpetRooms sel"
| "carpetQty sel Stairs = carpetStairs sel"
| "carpetQty sel DownHall = downHall sel"
| "carpetQty sel UpLanding = upLanding sel"
| "carpetQty sel WalkIn = walkIn sel"

text \<open>Nothing but carpet is selected: every other quantity is 0 and every flag is off.\<close>

definition noOtherServices :: "selection \<Rightarrow> bool" where
  "noOtherServices sel \<longleftrightarrow>
     tileTotalSqft sel = 0 \<and> sectionalQty sel = 0
     \<and> sectionalDeo sel = False \<and> sectionalProt sel = False
     \<and> list_all (\<lambda>k. uphQty sel k = 0 \<and> uphDeo sel k = False \<and> uphProt sel k = False)
         uphKeys
     \<and> list_all (\<lambda>sz. list_all (\<lambda>p. rugPackages sel sz p = 0) pkgKeys) rugSizes
     \<and> pestMonthly sel = False \<and> pestOneTime sel = False \<and> pestHomeSqft sel = 0"

text \<open>Every quantity is 0 and no flag is set (the zone is not constrained).\<close>

definition nothingSelected :: "selection \<Rightarrow> bool" where
  "nothingSelected sel \<longleftrightarrow>
     list_all (\<lambda>a. list_all (\<lambda>k. carpetQty sel a k = 0) pkgKeys) areas
     \<and> noOtherServices sel"



text \<open>Every numeric input is non-negative.\<close>

definition nonNegative :: "selection \<Rightarrow> bool" where
  "nonNegative sel \<longleftrightarrow>
     list_all (\<lambda>a. list_all (\<lambda>k. 0 \<le> carpetQty sel a k) pkgKeys) areas
     \<and> 0 \<le> tileTotalSqft sel \<and> 0 \<le> sectionalCushions sel \<and> 0 \<le> sectionalQty sel
     \<and> list_all (\<lambda>k. 0 \<le> uphQty sel k) uphKeys
     \<and> list_all (\<lambda>sz. list_all (\<lambda>p. 0 \<le> rugPackages sel sz p) pkgKeys) rugSizes
     \<and> 0 \<le> pestHomeSqft sel"

subsection \<open>Concrete selections\<close>

fun oneStandard :: "pkg \<Rightarrow> int" where
  "oneStandard Standard = 1"
| "oneStandard Reset = 0"
| "oneStandard Deluxe = 0"

fun threeDeluxe :: "pkg \<Rightarrow> int" where
  "threeDeluxe Standard = 0"
| "threeDeluxe Reset = 0"
| "threeDeluxe Deluxe = 3"

fun twoTwinMattresses :: "uphKey \<Rightarrow> int" where
  "twoTwinMattresses k = (if k = MattressTwin then 2 else 0)"

fun onTwinMattress :: "uphKey \<Rightarrow> bool" where
  "onTwinMattress k = (k = MattressTwin)"

text \<open>One standard room, zone local.\<close>

definition oneRoom :: selection where
  "oneRoom = (initialSelection ''local'')\<lparr>carpetRooms := oneStandard\<rparr>"

text \<open>Three deluxe stairs, zone local.\<close>

definition threeStairs :: selection where
  "threeStairs = (initialSelection ''local'')\<lparr>carpetStairs := threeDeluxe\<rparr>"

text \<open>
  Two twin mattresses with both add-ons, and two sectionals of \<open>c\<close> cushions with both.
\<close>

definition mattressesAndSectionals :: "int \<Rightarrow> selection" where
  "mattressesAndSectionals c =
     (initialSelection ''local'')
       \<lparr>uphQty := twoTwinMattresses, uphDeo := onTwinMattress, uphProt := onTwinMattress,
        sectionalCushions := c, sectionalQty := 2, sectionalDeo := True,
        sectionalProt := True\<rparr>"

text \<open>Nothing selected, zone extended, the cushion count set to 9.\<close>

definition extendedNine :: selection where
  "extendedNine = (initialSelection ''extended'')\<lparr>sectionalCushions := 9\<rparr>"

text \<open>Only the monthly pest control box is ticked; both pest control boxes are.\<close>

definition monthlyOnly :: selection where
  "monthlyOnly = (initialSelection ''local'')\<lparr>pestMonthly := True\<rparr>"


text \<open>Only the flea and tick square footage is entered.\<close>

definition fleaOnly :: "int \<Rightarrow> selection" where
  "fleaOnly sqft = (initialSelection ''local'')\<lparr>pestHomeSqft := sqft\<rparr>"

section \<open>Rounding to a double\<close>

lemma bitLength_less: "n < 2 ^ k \<Longrightarrow> bitLength n \<le> k"
proof (induction n arbitrary: k rule: bitLength.induct)
  case (1 n)
  show ?case
  proof (cases "n = 0")
    case True
    then show ?thesis by (simp add: bitLength.simps)
  next
    case False
    with "1.prems" obtain j where k: "k = Suc j"
      by (cases k) auto
    with "1.prems" have "n div 2 < 2 ^ j"
      by auto
    with "1.IH" [OF False] have "bitLength (n div 2) \<le> j"
      by simp
    with False k show ?thesis
      by (simp add: bitLength.simps [of n])
  qed
qed

lemma bitLength_upper: "n < 2 ^ bitLength n"
proof (induction n rule: bitLength.induct)
  case (1 n)
  show ?case
  proof (cases "n = 0")
    case True
    then show ?thesis by (simp add: bitLength.simps)
  next
    case False
    with "1.IH" have "n div 2 < 2 ^ bitLength (n div 2)"
      by simp
    then have "n < 2 * 2 ^ bitLength (n div 2)"
      by linarith
    with False show ?thesis
      by (simp add: bitLength.simps [of n])
  qed
qed

lemma bitLength_lower: "0 < n \<Longrightarrow> 2 ^ (bitLength n - 1) \<le> n"
proof (induction n rule: bitLength.induct)
  case (1 n)
  then have n: "n \<noteq> 0" by simp
  show ?case
  proof (cases "n div 2 = 0")
    case True
    with n show ?thesis
      by (simp add: bitLength.simps [of n] bitLength.simps [of 0])
  next
    case False
    with "1.IH" [OF n] have ih: "2 ^ (bitLength (n div 2) - 1) \<le> n div 2"
      by simp
    from False have "0 < bitLength (n div 2)"
      by (simp add: bitLength.simps [of "n div 2"])
    then have "(2::nat) ^ bitLength (n div 2) = 2 * 2 ^ (bitLength (n div 2) - 1)"
      by (cases "bitLength (n div 2)") simp_all
    with ih have "2 ^ bitLength (n div 2) \<le> n"
      by linarith
    with n show ?thesis
      by (simp add: bitLength.simps [of n])
  qed
qed

lemma pow2_pos: "0 < pow2 i"
  by (simp add: pow2_def)

lemma pow2_mono:
  assumes "i \<le> j"
  shows "pow2 i \<le> pow2 j"
proof -
  have one_le: "(1::rat) \<le> 2 ^ n" for n :: nat
    by simp
  consider (nonneg) "0 \<le> i" | (mixed) "i < 0" "0 \<le> j" | (neg) "j < 0"
    using assms by linarith
  then show ?thesis
  proof cases
    case nonneg
    with assms have "nat i \<le> nat j" and "0 \<le> j"
      by simp_all
    with nonneg show ?thesis
      by (simp add: pow2_def power_increasing)
  next
    case mixed
    have "1 / 2 ^ nat (- i) \<le> (1::rat)"
      using one_le [of "nat (- i)"] by (simp add: divide_le_eq)
    also have "\<dots> \<le> 2 ^ nat j"
      by (rule one_le)
    finally show ?thesis
      using mixed by (simp add: pow2_def)
  next
    case neg
    with assms have le: "nat (- j) \<le> nat (- i)" and "i < 0"
      by simp_all
    have "(2::rat) ^ nat (- j) \<le> 2 ^ nat (- i)"
      using le by (intro power_increasing) simp_all
    then have "1 / 2 ^ nat (- i) \<le> (1::rat) / 2 ^ nat (- j)"
      by (intro divide_left_mono) simp_all
    with neg \<open>i < 0\<close> show ?thesis
      by (simp add: pow2_def)
  qed
qed

lemma roundHalfEven_near: "\<bar>of_int (roundHalfEven y) - y\<bar> \<le> 1 / 2"
proof -
  have "of_int \<lfloor>y\<rfloor> \<le> y" and "y < of_int \<lfloor>y\<rfloor> + 1"
    by linarith+
  then show ?thesis
    unfolding roundHalfEven_def Let_def by (auto simp: abs_le_iff) 
qed

lemma roundHalfEven_nonneg: "0 \<le> y \<Longrightarrow> 0 \<le> roundHalfEven y"
  unfolding roundHalfEven_def Let_def by auto

lemma roundHalfEven_of_int: "roundHalfEven (of_int m) = m"
  by (simp add: roundHalfEven_def)

lemma roundHalfEven_even:
  assumes "even n" and "\<bar>y - of_int n\<bar> \<le> 1 / 2"
  shows "roundHalfEven y = n"
proof -
  from assms(2) have lo: "of_int n - 1 / 2 \<le> y" and hi: "y \<le> of_int n + 1 / 2"
    by linarith+
  show ?thesis
  proof (cases "of_int n \<le> y")
    case True
    moreover from hi have "y < of_int n + 1"
      by linarith
    ultimately have f: "\<lfloor>y\<rfloor> = n"
      by (rule floor_unique)
    with hi assms(1) show ?thesis
      by (auto simp: roundHalfEven_def Let_def)
  next
    case False
    then have "y < of_int (n - 1) + 1"
      by simp
    moreover from lo have "of_int (n - 1) \<le> y"
      by simp
    ultimately have f: "\<lfloor>y\<rfloor> = n - 1"
      by (intro floor_unique)
    with lo assms(1) show ?thesis
      by (auto simp: roundHalfEven_def Let_def)
  qed
qed

lemma toDouble_nonneg:
  assumes "0 \<le> x"
  shows "0 \<le> toDouble x"
proof (cases "x = 0")
  case True
  then show ?thesis by (simp add: toDouble_def)
next
  case False
  with assms have x: "0 < x" by simp
  let ?u = "pow2 (binaryExponent \<bar>x\<bar> - 52)"
  have "0 \<le> \<bar>x\<bar> / ?u"
    using pow2_pos [of "binaryExponent \<bar>x\<bar> - 52"] by simp
  then have "0 \<le> roundHalfEven (\<bar>x\<bar> / ?u)"
    by (rule roundHalfEven_nonneg)
  then have "0 \<le> of_int (roundHalfEven (\<bar>x\<bar> / ?u)) * ?u"
    using pow2_pos [of "binaryExponent \<bar>x\<bar> - 52"] by simp
  with x show ?thesis
    by (simp add: toDouble_def Let_def)
qed

lemma toDouble_pos_unfold:
  "0 < x \<Longrightarrow>
   toDouble x = of_int (roundHalfEven (x / pow2 (binaryExponent x - 52)))
                  * pow2 (binaryExponent x - 52)"
  by (simp add: toDouble_def Let_def)

lemma toDouble_of_int:
  assumes "0 \<le> n" and "n < 2 ^ 53"
  shows "toDouble (of_int n) = of_int n"
proof (cases "n = 0")
  case True
  then show ?thesis by (simp add: toDouble_def)
next
  case False
  with assms have n: "0 < n" by simp
  define b where "b = bitLength (nat n)"
  from assms n have "nat n < 2 ^ 53"
    by (simp add: nat_less_iff)
  then have b53: "b \<le> 53"
    unfolding b_def by (rule bitLength_less)
  have e: "binaryExponent (of_int n) = int b - 1"
    using n by (simp add: binaryExponent_def b_def)
  have u: "pow2 (int b - 1 - 52) = 1 / 2 ^ (53 - b)"
  proof (cases "b = 53")
    case True
    then show ?thesis by (simp add: pow2_def)
  next
    case False
    with b53 have "int b - 1 - 52 < 0" and "nat (- (int b - 1 - 52)) = 53 - b"
      by simp_all
    then show ?thesis
      by (simp add: pow2_def)
  qed
  have "(of_int n :: rat) / (1 / 2 ^ (53 - b)) = of_int (n * 2 ^ (53 - b))"
    by simp
  then have r: "roundHalfEven (of_int n / (1 / 2 ^ (53 - b))) = n * 2 ^ (53 - b)"
    by (simp only: roundHalfEven_of_int)
  from n have "toDouble (of_int n)
      = of_int (roundHalfEven (of_int n / pow2 (binaryExponent (of_int n) - 52)))
          * pow2 (binaryExponent (of_int n) - 52)"
    by (intro toDouble_pos_unfold) simp
  also have "\<dots> = of_int (n * 2 ^ (53 - b)) * (1 / 2 ^ (53 - b))"
    by (simp only: e u r)
  also have "\<dots> = of_int n"
    by simp
  finally show ?thesis .
qed

lemma binaryExponent_le_7:
  assumes "0 < x" and "x < 256"
  shows "binaryExponent x \<le> 7"
proof (cases "1 \<le> x")
  case True
  from assms(2) have "\<lfloor>x\<rfloor> < 256"
    by (simp add: floor_less_iff)
  then have "nat \<lfloor>x\<rfloor> < 256"
    by linarith
  then have "nat \<lfloor>x\<rfloor> < 2 ^ 8"
    by simp
  then have "bitLength (nat \<lfloor>x\<rfloor>) \<le> 8"
    by (rule bitLength_less)
  with True show ?thesis
    by (simp add: binaryExponent_def)
next
  case False
  then show ?thesis
    by (simp add: binaryExponent_def)
qed

lemma toDouble_near:
  assumes "0 < x" and "x < 256"
  shows "\<bar>toDouble x - x\<bar> \<le> pow2 (- 46)"
proof -
  define u where "u = pow2 (binaryExponent x - 52)"
  have upos: "0 < u"
    unfolding u_def by (rule pow2_pos)
  from binaryExponent_le_7 [OF assms] have "binaryExponent x - 52 \<le> - 45"
    by simp
  then have "u \<le> pow2 (- 45)"
    unfolding u_def by (rule pow2_mono)
  then have uhalf: "u * (1 / 2) \<le> pow2 (- 46)"
    by (simp add: pow2_def)
  have t: "toDouble x = of_int (roundHalfEven (x / u)) * u"
    unfolding u_def using assms(1) by (rule toDouble_pos_unfold)
  have "toDouble x - x = (of_int (roundHalfEven (x / u)) - x / u) * u"
    using upos by (simp add: t algebra_simps)
  then have "\<bar>toDouble x - x\<bar> = \<bar>of_int (roundHalfEven (x / u)) - x / u\<bar> * u"
    using upos by (simp add: abs_mult)
  also have "\<dots> \<le> (1 / 2) * u"
    using roundHalfEven_near [of "x / u"] upos by (intro mult_right_mono) simp_all
  also have "\<dots> \<le> pow2 (- 46)"
    using uhalf by (simp add: mult.commute)
  finally show ?thesis .
qed

lemma toDouble_135:
  assumes "\<bar>x - 135\<bar> \<le> pow2 (- 46)"
  shows "toDouble x = 135"
proof -
  have p: "pow2 (- 46) = 1 / 2 ^ 46"
    by (simp add: pow2_def)
  from assms have lo: "135 - 1 / 2 ^ 46 \<le> x" and hi: "x \<le> 135 + 1 / 2 ^ 46"
    unfolding p by linarith+
  have small: "(1::rat) / 2 ^ 46 < 1"
    by simp
  from lo hi small have x: "0 < x" "1 \<le> x" "134 \<le> x" "x < 136"
    by linarith+
  then have "134 \<le> \<lfloor>x\<rfloor>" and "\<lfloor>x\<rfloor> < 136"
    by (simp_all add: le_floor_iff floor_less_iff)
  then have "nat \<lfloor>x\<rfloor> = 134 \<or> nat \<lfloor>x\<rfloor> = 135"
    by linarith
  moreover have "bitLength 134 = 8" and "bitLength 135 = 8"
    by code_simp+
  ultimately have "bitLength (nat \<lfloor>x\<rfloor>) = 8"
    by auto
  with x have e: "binaryExponent x = 7"
    by (simp add: binaryExponent_def)
  have u: "pow2 (7 - 52) = 1 / 2 ^ 45"
    by (simp add: pow2_def)
  have "\<bar>x / (1 / 2 ^ 45) - of_int (135 * 2 ^ 45)\<bar> = \<bar>x - 135\<bar> * 2 ^ 45"
  proof -
    have "x / (1 / 2 ^ 45) - of_int (135 * 2 ^ 45) = (x - 135) * 2 ^ 45"
      by (simp add: algebra_simps)
    then show ?thesis
      by (simp only: abs_mult) simp
  qed
  also have "\<dots> \<le> (1 / 2 ^ 46) * 2 ^ 45"
    using assms unfolding p by (intro mult_right_mono) simp_all
  also have "\<dots> = 1 / 2"
    by simp
  finally have near: "\<bar>x / (1 / 2 ^ 45) - of_int (135 * 2 ^ 45)\<bar> \<le> 1 / 2" .
  have "even (135 * 2 ^ 45 :: int)"
    by simp
  then have r: "roundHalfEven (x / (1 / 2 ^ 45)) = 135 * 2 ^ 45"
    using near by (rule roundHalfEven_even)
  from x(1) have "toDouble x
      = of_int (roundHalfEven (x / pow2 (binaryExponent x - 52)))
          * pow2 (binaryExponent x - 52)"
    by (rule toDouble_pos_unfold)
  also have "\<dots> = of_int (135 * 2 ^ 45) * (1 / 2 ^ 45)"
    by (simp only: e u r)
  also have "\<dots> = 135"
    by simp
  finally show ?thesis .
qed

lemma addDouble_subDouble_135:
  assumes "0 < s" and "s < 135"
  shows "addDouble s (subDouble 135 s) = 135"
proof -
  from assms have "0 < 135 - s" and "135 - s < 256"
    by simp_all
  then have "\<bar>toDouble (135 - s) - (135 - s)\<bar> \<le> pow2 (- 46)"
    by (rule toDouble_near)
  then have "\<bar>(s + toDouble (135 - s)) - 135\<bar> \<le> pow2 (- 46)"
    by (simp add: algebra_simps)
  then show ?thesis
    unfolding addDouble_def subDouble_def by (rule toDouble_135)
qed

lemma toDouble_half:
  assumes "0 \<le> m" and "m < 2 ^ 53"
  shows "toDouble (of_int m / 2) = of_int m / 2"
proof -
  consider (zero) "m = 0" | (one) "m = 1" | (more) "2 \<le> m"
    using assms(1) by linarith
  then show ?thesis
  proof cases
    case zero
    then show ?thesis by (simp add: toDouble_def)
  next
    case one
    have "toDouble (1 / 2) = 1 / 2"
      by code_simp
    with one show ?thesis by simp
  next
    case more
    define x :: rat where "x = of_int m / 2"
    define b where "b = bitLength (nat (m div 2))"
    from more have x1: "1 \<le> x" and x0: "0 < x"
      by (simp_all add: x_def)
    have fl: "\<lfloor>x\<rfloor> = m div 2"
      unfolding x_def by (simp add: floor_divide_of_int_eq [of m 2, simplified])
    from assms(2) have "m div 2 < 2 ^ 52"
      by simp
    with more have "nat (m div 2) < 2 ^ 52"
      by (simp add: nat_less_iff)
    then have b52: "b \<le> 52"
      unfolding b_def by (rule bitLength_less)
    have e: "binaryExponent x = int b - 1"
      using x1 by (simp add: binaryExponent_def fl b_def)
    from b52 have "int b - 1 - 52 < 0" and "nat (- (int b - 1 - 52)) = 53 - b"
      by simp_all
    then have u: "pow2 (int b - 1 - 52) = 1 / 2 ^ (53 - b)"
      by (simp add: pow2_def)
    from b52 have "53 - b = Suc (52 - b)"
      by simp
    then have "(2::rat) ^ (53 - b) = 2 * 2 ^ (52 - b)"
      by simp
    then have q: "x / (1 / 2 ^ (53 - b)) = of_int (m * 2 ^ (52 - b))"
      by (simp add: x_def)
    have r: "roundHalfEven (x / (1 / 2 ^ (53 - b))) = m * 2 ^ (52 - b)"
      unfolding q by (rule roundHalfEven_of_int)
    from x0 have "toDouble x
        = of_int (roundHalfEven (x / pow2 (binaryExponent x - 52)))
            * pow2 (binaryExponent x - 52)"
      by (rule toDouble_pos_unfold)
    also have "\<dots> = of_int (m * 2 ^ (52 - b)) * (1 / 2 ^ (53 - b))"
      by (simp only: e u r)
    also have "\<dots> = x"
      using q by (simp add: field_simps)
    finally show ?thesis
      by (simp add: x_def)
  qed
qed

lemma subDouble_135_near:
  assumes "0 < s" and "s < 135"
  shows "\<bar>subDouble 135 s - (135 - s)\<bar> \<le> 1 / 2 ^ 46"
proof -
  from assms have "0 < 135 - s" and "135 - s < 256"
    by simp_all
  then have "\<bar>toDouble (135 - s) - (135 - s)\<bar> \<le> pow2 (- 46)"
    by (rule toDouble_near)
  then show ?thesis
    by (simp add: subDouble_def pow2_def)
qed

lemma subDouble_135_half:
  assumes "0 < s" and "s < 135" and "s = of_int m / 2"
  shows "subDouble 135 s = 135 - s"
proof -
  from assms have "0 < m" and "m < 270"
    by simp_all
  then have "0 \<le> 270 - m" and "270 - m < 2 ^ 53"
    by simp_all
  then have t: "toDouble (of_int (270 - m) / 2) = of_int (270 - m) / 2"
    by (rule toDouble_half)
  have d: "135 - s = of_int (270 - m) / 2"
    by (simp add: assms(3) field_simps)
  show ?thesis
    unfolding subDouble_def d by (rule t)
qed


section \<open>The blocks push what the lists say\<close>

text \<open>
  Each block appends its list to \<^verbatim>\<open>lines\<close> and adds the sum of that list's totals to
  \<^verbatim>\<open>sub\<close>; a \<^verbatim>\<open>forEach\<close> loop appends the concatenation of what its callback pushes.
\<close>

lemma sumTotals_Nil: "sumTotals [] = 0"
  by (simp add: sumTotals_def)

lemma sumTotals_Cons: "sumTotals (l # ls) = line.total l + sumTotals ls"
  by (simp add: sumTotals_def)

lemma sumTotals_append: "sumTotals (xs @ ys) = sumTotals xs + sumTotals ys"
  by (simp add: sumTotals_def)

lemmas sumTotals_simps = sumTotals_Nil sumTotals_Cons sumTotals_append

lemma foldl_emit:
  assumes "\<And>ls s k. step (ls, s) k = (ls @ f k, s + sumTotals (f k))"
  shows "foldl step (ls, s) ks = (ls @ concat (map f ks), s + sumTotals (concat (map f ks)))"
  using assms
  by (induction ks arbitrary: ls s) (simp_all add: sumTotals_simps)

lemma carpetBlock_emit:
  "carpetBlock a qtys (ls, s) = (ls @ carpetLines a qtys, s + sumTotals (carpetLines a qtys))"
  unfolding carpetBlock_def carpetLines_def pkgKeys_def
  by (rule foldl_emit) (simp add: orZero_def carpetLine_def sumTotals_simps Let_def)

lemma tileBlock_emit:
  "tileBlock sqft (ls, s) = (ls @ tileLines sqft, s + sumTotals (tileLines sqft))"
  by (simp add: tileLines_def orZero_def tileRate_def sumTotals_simps Let_def max_def)

lemma sectionalBlock_emit:
  "sectionalBlock c q deo prot (ls, s) =
     (ls @ sectionalLines c q deo prot, s + sumTotals (sectionalLines c q deo prot))"
  by (simp add: sectionalLines_def sectionalLine_def addOnLine_def sumTotals_simps Let_def)

lemma uphStep_emit:
  "uphStep qtys deo prot (ls, s) k =
     (ls @ uphItemLines qtys deo prot k, s + sumTotals (uphItemLines qtys deo prot k))"
  by (simp add: uphItemLines_def uphLine_def addOnLine_def orZero_def sumTotals_simps Let_def)

lemma uphBlock_emit:
  "uphBlock qtys deo prot (ls, s) =
     (ls @ uphLines qtys deo prot, s + sumTotals (uphLines qtys deo prot))"
  unfolding uphBlock_def uphLines_def
  by (rule foldl_emit) (rule uphStep_emit)

lemma rugStep_emit:
  "rugStep rugs sz (ls, s) p =
     (ls @ (if rugs sz p = 0 then [] else [rugLine sz p (rugs sz p)]),
      s + sumTotals (if rugs sz p = 0 then [] else [rugLine sz p (rugs sz p)]))"
  by (cases p) (simp_all add: orZero_def rugLine_def sumTotals_simps Let_def)

lemma rugSizeStep_emit:
  "rugSizeStep rugs (ls, s) sz =
     (ls @ rugSizeLines rugs sz, s + sumTotals (rugSizeLines rugs sz))"
  unfolding rugSizeStep_def rugSizeLines_def
  by (rule foldl_emit) (rule rugStep_emit)

lemma rugBlock_emit:
  "rugBlock rugs (ls, s) = (ls @ rugLines rugs, s + sumTotals (rugLines rugs))"
  unfolding rugBlock_def rugLines_def
  by (rule foldl_emit) (rule rugSizeStep_emit)

text \<open>
  The blocks from pest control on add with rounding: they leave in \<^verbatim>\<open>sub\<close> the running
  sum \<open>sumFrom\<close> of what they push.
\<close>

lemma sumFrom_Nil: "sumFrom s [] = s"
  by (simp add: sumFrom_def)

lemma sumFrom_Cons: "sumFrom s (l # ls) = sumFrom (addDouble s (line.total l)) ls"
  by (simp add: sumFrom_def)

lemma sumFrom_append: "sumFrom s (xs @ ys) = sumFrom (sumFrom s xs) ys"
  by (simp add: sumFrom_def)

lemmas sumFrom_simps = sumFrom_Nil sumFrom_Cons sumFrom_append

lemma pestMonthlyBlock_emit:
  "pestMonthlyBlock on (ls, s) = (ls @ pestMonthlyLines on, sumFrom s (pestMonthlyLines on))"
  by (simp add: pestMonthlyLines_def flatLine_def sumFrom_simps Let_def)

lemma pestOneTimeBlock_emit:
  "pestOneTimeBlock on (ls, s) = (ls @ pestOneTimeLines on, sumFrom s (pestOneTimeLines on))"
  by (simp add: pestOneTimeLines_def flatLine_def sumFrom_simps Let_def)

lemma fleaBlock_emit:
  "fleaBlock sqft (ls, s) = (ls @ fleaLines sqft, sumFrom s (fleaLines sqft))"
  by (simp add: fleaLines_def fleaTier_def flatLine_def flea1600_def flea3200_def
      sumFrom_simps Let_def)

lemma zoneBlock_emit:
  "zoneBlock z (ls, s) = (ls @ zoneLines z, sumFrom s (zoneLines z))"
  by (simp add: zoneLines_def flatLine_def extendedFee_def sumFrom_simps Let_def)

lemma minChargeBlock_emit:
  "minChargeBlock (ls, s) = (ls @ minChargeLines s, sumFrom s (minChargeLines s))"
  by (simp add: minChargeLines_def flatLine_def minCharge_def sumFrom_simps Let_def)

lemmas block_emit =
  carpetBlock_emit tileBlock_emit sectionalBlock_emit uphBlock_emit rugBlock_emit
  pestMonthlyBlock_emit pestOneTimeBlock_emit fleaBlock_emit zoneBlock_emit

lemma rawQuote_emit: "rawQuote sel = (rawLines sel, rawSub sel)"
  unfolding rawQuote_def Let_def block_emit
  by (simp add: rawLines_def rawSub_def categoryLines_def lateLines_def sumTotals_simps
      sumFrom_simps add.assoc)

lemma computeQuote_emit:
  "computeQuote sel =
     \<lparr>lines = orderedLines sel,
      subtotal = sumFrom (rawSub sel) (minChargeLines (rawSub sel)),
      total = sumFrom (rawSub sel) (minChargeLines (rawSub sel))\<rparr>"
  unfolding computeQuote_def rawQuote_emit minChargeBlock_emit orderedLines_def
  by simp

section \<open>Every line is quantity times unit price\<close>

lemma set_packages: "set [Standard, Reset, Deluxe] = UNIV"
proof -
  have "k \<in> set [Standard, Reset, Deluxe]" for k
    by (cases k) simp_all
  then show ?thesis by blast
qed

lemma set_carpetLines:
  "set (carpetLines a qtys) = {carpetLine a k (qtys k) | k. qtys k \<noteq> 0}"
  unfolding carpetLines_def set_concat set_map set_packages by auto

lemma set_uphLines:
  "set (uphLines qtys deo prot) = (\<Union>k\<in>set uphKeys. set (uphItemLines qtys deo prot k))"
  by (simp add: uphLines_def)

lemma set_rugSizeLines:
  "set (rugSizeLines rugs sz) = {rugLine sz p (rugs sz p) | p. rugs sz p \<noteq> 0}"
  unfolding rugSizeLines_def set_concat set_map set_packages by auto

lemma set_rugLines:
  "set (rugLines rugs) = (\<Union>sz\<in>set rugSizes. set (rugSizeLines rugs sz))"
  by (simp add: rugLines_def)








section \<open>Labels: which lines are adjustments, which are flea and tick lines\<close>

lemma carpetLines_other: "l \<in> set (carpetLines a qtys) \<Longrightarrow> otherLine l"
proof -
  have "otherLine (carpetLine a k q)" for k q
    by (cases k)
      (simp_all add: otherLine_def isAdjustment_def isFleaTick_def carpetLine_def
        carpetsLabel_def)
  then show "l \<in> set (carpetLines a qtys) \<Longrightarrow> otherLine l"
    by (auto simp: set_carpetLines)
qed

lemma tileLines_other: "l \<in> set (tileLines sqft) \<Longrightarrow> otherLine l"
  by (auto simp: tileLines_def otherLine_def isAdjustment_def isFleaTick_def split: if_splits)

lemma sectionalLines_other: "l \<in> set (sectionalLines c q deo prot) \<Longrightarrow> otherLine l"
  by (auto simp: sectionalLines_def sectionalLine_def addOnLine_def otherLine_def
      isAdjustment_def isFleaTick_def split: if_splits)

lemma uphItemLines_other: "l \<in> set (uphItemLines qtys deo prot k) \<Longrightarrow> otherLine l"
  by (cases k)
    (auto simp: uphItemLines_def uphLine_def addOnLine_def otherLine_def
      isAdjustment_def isFleaTick_def split: if_splits)

lemma uphLines_other: "l \<in> set (uphLines qtys deo prot) \<Longrightarrow> otherLine l"
  by (auto simp: set_uphLines uphItemLines_other)

lemma rugLines_other: "l \<in> set (rugLines rugs) \<Longrightarrow> otherLine l"
  by (auto simp: set_rugLines set_rugSizeLines rugLine_def otherLine_def
      isAdjustment_def isFleaTick_def)

lemma pestMonthlyLines_other: "l \<in> set (pestMonthlyLines m) \<Longrightarrow> otherLine l"
  by (auto simp: pestMonthlyLines_def flatLine_def otherLine_def isAdjustment_def
      isFleaTick_def split: if_splits)

lemma pestOneTimeLines_other: "l \<in> set (pestOneTimeLines t) \<Longrightarrow> otherLine l"
  by (auto simp: pestOneTimeLines_def flatLine_def otherLine_def isAdjustment_def
      isFleaTick_def split: if_splits)

lemma zoneLines_other: "l \<in> set (zoneLines z) \<Longrightarrow> otherLine l"
  by (auto simp: zoneLines_def flatLine_def otherLine_def isAdjustment_def isFleaTick_def
      split: if_splits)

lemmas lines_other =
  carpetLines_other tileLines_other sectionalLines_other uphLines_other rugLines_other
  pestMonthlyLines_other pestOneTimeLines_other zoneLines_other

lemma filter_none:
  "(\<And>l. l \<in> set ls \<Longrightarrow> otherLine l)
   \<Longrightarrow> filter isFleaTick ls = [] \<and> filter isAdjustment ls = []"
  by (auto simp: otherLine_def filter_empty_conv)

lemma fleaLines_adjustment: "filter isAdjustment (fleaLines sqft) = []"
  by (simp add: fleaLines_def flatLine_def isAdjustment_def)

lemma fleaLines_flea: "filter isFleaTick (fleaLines sqft) = fleaLines sqft"
  by (simp add: fleaLines_def flatLine_def isFleaTick_def)

lemma minChargeLines_flea: "filter isFleaTick (minChargeLines s) = []"
  by (simp add: minChargeLines_def flatLine_def isFleaTick_def)

lemma rawLines_adjustment: "filter isAdjustment (rawLines sel) = []"
  unfolding rawLines_def categoryLines_def lateLines_def filter_append
  by (simp add: fleaLines_adjustment filter_none lines_other)

lemma orderedLines_flea: "filter isFleaTick (orderedLines sel) = fleaLines (pestHomeSqft sel)"
  unfolding orderedLines_def rawLines_def categoryLines_def lateLines_def filter_append
  by (simp add: fleaLines_flea minChargeLines_flea filter_none lines_other)

lemma quote_total_cases:
  "summary.total (computeQuote sel) =
     (if 0 < rawSub sel \<and> rawSub sel < 135 then 135 else rawSub sel)"
  by (simp add: computeQuote_emit minChargeLines_def flatLine_def sumFrom_simps
      addDouble_subDouble_135)

section \<open>The minimum charge\<close>

text \<open>
  Claim C1 (minimum-charge law), as amended. Let \<open>raw\<close> and \<open>s\<close> be the lines and the
  subtotal when the minimum-charge test is reached; \<open>s\<close> is the running sum of the
  totals of \<open>raw\<close> as the code accumulates it, and no line of \<open>raw\<close> is an adjustment.
  If \<open>0 < s < minCharge\<close>, the returned lines are \<open>raw\<close> followed by one "Minimum
  Charge Adjustment" line, the only adjustment line; its value is \<open>minCharge - s\<close>
  rounded to the nearest double, which is within \<open>2\<^sup>-\<^sup>4\<^sup>6\<close> of \<open>minCharge - s\<close> and
  equal to it when \<open>s\<close> is a multiple of one half; the total is exactly \<open>minCharge\<close>.
  If \<open>s = 0\<close>, there is no adjustment line and the total is 0. If
  \<open>s \<ge> minCharge\<close>, there is no adjustment line and the total is \<open>s\<close>.
\<close>

theorem minimum_charge_law:
  fixes sel :: selection
  defines "raw \<equiv> fst (rawQuote sel)" and "s \<equiv> snd (rawQuote sel)"
  shows
    "raw = categoryLines sel @ lateLines sel
     \<and> s = foldl addDouble (sum_list (map line.total (categoryLines sel)))
             (map line.total (lateLines sel))
     \<and> filter isAdjustment raw = []
     \<and> (0 < s \<and> s < minCharge \<longrightarrow>
          lines (computeQuote sel)
            = raw @ [\<lparr>label = ''Minimum Charge Adjustment'', qty = 1,
                       each = subDouble minCharge s, total = subDouble minCharge s\<rparr>]
          \<and> \<bar>subDouble minCharge s - (minCharge - s)\<bar> \<le> 1 / 2 ^ 46
          \<and> ((\<exists>m :: int. s = of_int m / 2) \<longrightarrow> subDouble minCharge s = minCharge - s)
          \<and> length (filter isAdjustment (lines (computeQuote sel))) = 1
          \<and> summary.total (computeQuote sel) = minCharge)
     \<and> (s = 0 \<longrightarrow>
          lines (computeQuote sel) = raw
          \<and> filter isAdjustment (lines (computeQuote sel)) = []
          \<and> summary.total (computeQuote sel) = 0)
     \<and> (minCharge \<le> s \<longrightarrow>
          lines (computeQuote sel) = raw
          \<and> filter isAdjustment (lines (computeQuote sel)) = []
          \<and> summary.total (computeQuote sel) = s)"
proof -
  have raw: "raw = rawLines sel" and s: "s = rawSub sel"
    by (simp_all add: raw_def s_def rawQuote_emit)
  have none: "filter isAdjustment (rawLines sel) = []"
    by (rule rawLines_adjustment)
  have ls: "lines (computeQuote sel) = rawLines sel @ minChargeLines s"
    by (simp add: computeQuote_emit orderedLines_def s)
  have tot: "summary.total (computeQuote sel) = (if 0 < s \<and> s < 135 then 135 else s)"
    by (simp add: quote_total_cases s)
  have c1: "raw = categoryLines sel @ lateLines sel"
    by (simp add: raw rawLines_def)
  have c2: "s = foldl addDouble (sum_list (map line.total (categoryLines sel)))
             (map line.total (lateLines sel))"
    by (simp add: s rawSub_def sumFrom_def sumTotals_def)
  have c3: "filter isAdjustment raw = []"
    by (simp add: raw none)
  have low: "lines (computeQuote sel)
            = raw @ [\<lparr>label = ''Minimum Charge Adjustment'', qty = 1,
                       each = subDouble minCharge s, total = subDouble minCharge s\<rparr>]
          \<and> \<bar>subDouble minCharge s - (minCharge - s)\<bar> \<le> 1 / 2 ^ 46
          \<and> ((\<exists>m :: int. s = of_int m / 2) \<longrightarrow> subDouble minCharge s = minCharge - s)
          \<and> length (filter isAdjustment (lines (computeQuote sel))) = 1
          \<and> summary.total (computeQuote sel) = minCharge"
    if "0 < s \<and> s < minCharge"
  proof -
    from that have b: "0 < s" "s < 135"
      by (simp_all add: minCharge_def)
    have "\<bar>subDouble 135 s - (135 - s)\<bar> \<le> 1 / 2 ^ 46"
      using b by (rule subDouble_135_near)
    moreover have "subDouble 135 s = 135 - s" if "s = of_int m / 2" for m :: int
      using b that by (rule subDouble_135_half)
    ultimately show ?thesis
      using b none
      by (auto simp: ls tot raw minChargeLines_def flatLine_def minCharge_def
          isAdjustment_def)
  qed
  have zero: "lines (computeQuote sel) = raw
          \<and> filter isAdjustment (lines (computeQuote sel)) = []
          \<and> summary.total (computeQuote sel) = 0"
    if "s = 0"
    using that none by (simp add: ls tot raw minChargeLines_def)
  have high: "lines (computeQuote sel) = raw
          \<and> filter isAdjustment (lines (computeQuote sel)) = []
          \<and> summary.total (computeQuote sel) = s"
    if "minCharge \<le> s"
    using that none by (simp add: ls tot raw minChargeLines_def minCharge_def)
  from c1 c2 c3 low zero high show ?thesis
    by blast
qed

text \<open>
  Witness for C1 as amended: the monthly pest control alone (subtotal the double 49.99)
  gets the rounded adjustment and totals 135; one standard room (subtotal 45, a multiple
  of one half) gets the exact adjustment 90; the initial selection has subtotal 0 and an
  empty quote; three deluxe stairs (510) are above the minimum.
\<close>

theorem minimum_charge_law_witness:
  "(0 < snd (rawQuote monthlyOnly) \<and> snd (rawQuote monthlyOnly) < minCharge)
   \<and> lines (computeQuote monthlyOnly)
       = [\<lparr>label = ''Monthly General Pest Control (AL only)'', qty = 1,
           each = 7035467042882847 / 140737488355328,
           total = 7035467042882847 / 140737488355328\<rparr>,
          \<lparr>label = ''Minimum Charge Adjustment'', qty = 1,
           each = 373877933908951 / 4398046511104,
           total = 373877933908951 / 4398046511104\<rparr>]
   \<and> summary.total (computeQuote monthlyOnly) = 135
   \<and> (0 < snd (rawQuote oneRoom) \<and> snd (rawQuote oneRoom) < minCharge)
   \<and> snd (rawQuote oneRoom) = of_int 90 / 2
   \<and> lines (computeQuote oneRoom)
       = [\<lparr>label = ''Standard Steam Clean'', qty = 1, each = 45, total = 45\<rparr>,
          \<lparr>label = ''Minimum Charge Adjustment'', qty = 1, each = 90, total = 90\<rparr>]
   \<and> summary.total (computeQuote oneRoom) = 135
   \<and> snd (rawQuote (initialSelection ''local'')) = 0
   \<and> lines (computeQuote (initialSelection ''local'')) = []
   \<and> summary.total (computeQuote (initialSelection ''local'')) = 0
   \<and> minCharge \<le> snd (rawQuote threeStairs)
   \<and> lines (computeQuote threeStairs)
       = [\<lparr>label = ''Factory Reset Deluxe (Stairs)'', qty = 3, each = 170, total = 510\<rparr>]
   \<and> summary.total (computeQuote threeStairs) = 510"
proof -
  have pest: "0 < snd (rawQuote monthlyOnly) \<and> snd (rawQuote monthlyOnly) < minCharge"
    by code_simp
  have pestRaw: "rawQuote monthlyOnly
      = ([\<lparr>label = ''Monthly General Pest Control (AL only)'', qty = 1,
           each = 7035467042882847 / 140737488355328,
           total = 7035467042882847 / 140737488355328\<rparr>],
         7035467042882847 / 140737488355328)"
    by code_simp
  have pestDiff: "subDouble 135 (7035467042882847 / 140737488355328)
      = 373877933908951 / 4398046511104"
    by code_simp
  have low: "0 < snd (rawQuote oneRoom) \<and> snd (rawQuote oneRoom) < minCharge"
    by code_simp
  have lowRaw: "rawQuote oneRoom
      = ([\<lparr>label = ''Standard Steam Clean'', qty = 1, each = 45, total = 45\<rparr>], 45)"
    by code_simp
  have lowHalf: "\<exists>m :: int. snd (rawQuote oneRoom) = of_int m / 2"
    by (rule exI [of _ 90]) (simp add: lowRaw)
  have zero: "snd (rawQuote (initialSelection ''local'')) = 0"
    by code_simp
  have zeroRaw: "fst (rawQuote (initialSelection ''local'')) = []"
    by code_simp
  have high: "minCharge \<le> snd (rawQuote threeStairs)"
    by code_simp
  have highRaw: "rawQuote threeStairs
      = ([\<lparr>label = ''Factory Reset Deluxe (Stairs)'', qty = 3, each = 170, total = 510\<rparr>],
         510)"
    by code_simp
  from minimum_charge_law [of monthlyOnly] pest
  have "lines (computeQuote monthlyOnly)
          = fst (rawQuote monthlyOnly)
            @ [\<lparr>label = ''Minimum Charge Adjustment'', qty = 1,
                each = subDouble minCharge (snd (rawQuote monthlyOnly)),
                total = subDouble minCharge (snd (rawQuote monthlyOnly))\<rparr>]
        \<and> summary.total (computeQuote monthlyOnly) = minCharge"
    by blast
  then have p: "lines (computeQuote monthlyOnly)
       = [\<lparr>label = ''Monthly General Pest Control (AL only)'', qty = 1,
           each = 7035467042882847 / 140737488355328,
           total = 7035467042882847 / 140737488355328\<rparr>,
          \<lparr>label = ''Minimum Charge Adjustment'', qty = 1,
           each = 373877933908951 / 4398046511104,
           total = 373877933908951 / 4398046511104\<rparr>]
     \<and> summary.total (computeQuote monthlyOnly) = 135"
    by (simp add: pestRaw pestDiff minCharge_def)
  from minimum_charge_law [of oneRoom] low lowHalf
  have "lines (computeQuote oneRoom)
          = fst (rawQuote oneRoom)
            @ [\<lparr>label = ''Minimum Charge Adjustment'', qty = 1,
                each = subDouble minCharge (snd (rawQuote oneRoom)),
                total = subDouble minCharge (snd (rawQuote oneRoom))\<rparr>]
        \<and> subDouble minCharge (snd (rawQuote oneRoom)) = minCharge - snd (rawQuote oneRoom)
        \<and> summary.total (computeQuote oneRoom) = minCharge"
    by blast
  then have a: "lines (computeQuote oneRoom)
       = [\<lparr>label = ''Standard Steam Clean'', qty = 1, each = 45, total = 45\<rparr>,
          \<lparr>label = ''Minimum Charge Adjustment'', qty = 1, each = 90, total = 90\<rparr>]
     \<and> summary.total (computeQuote oneRoom) = 135"
    by (simp add: lowRaw minCharge_def)
  from minimum_charge_law [of "initialSelection ''local''"] zero
  have "lines (computeQuote (initialSelection ''local''))
          = fst (rawQuote (initialSelection ''local''))
        \<and> summary.total (computeQuote (initialSelection ''local'')) = 0"
    by blast
  then have b: "lines (computeQuote (initialSelection ''local'')) = []
     \<and> summary.total (computeQuote (initialSelection ''local'')) = 0"
    by (simp add: zeroRaw)
  from minimum_charge_law [of threeStairs] high
  have "lines (computeQuote threeStairs) = fst (rawQuote threeStairs)
        \<and> summary.total (computeQuote threeStairs) = snd (rawQuote threeStairs)"
    by blast
  then have c: "lines (computeQuote threeStairs)
       = [\<lparr>label = ''Factory Reset Deluxe (Stairs)'', qty = 3, each = 170, total = 510\<rparr>]
     \<and> summary.total (computeQuote threeStairs) = 510"
    by (simp add: highRaw)
  have half: "snd (rawQuote oneRoom) = of_int 90 / 2"
    by (simp add: lowRaw)
  show ?thesis
    using pest p low half a zero b high c by blast
qed

text \<open>
  Counterexample to C1 as stated: with the monthly pest control alone the subtotal \<open>s\<close>
  is the double 49.99 and the adjustment line holds 85.00999999999999, which is not
  \<open>minCharge - s\<close>: it is \<open>2\<^sup>-\<^sup>4\<^sup>7\<close> below it.
\<close>

theorem adjustment_rounded_counterexample:
  "snd (rawQuote monthlyOnly) = 7035467042882847 / 140737488355328
   \<and> (0 < snd (rawQuote monthlyOnly) \<and> snd (rawQuote monthlyOnly) < minCharge)
   \<and> lines (computeQuote monthlyOnly)
       = [\<lparr>label = ''Monthly General Pest Control (AL only)'', qty = 1,
           each = 7035467042882847 / 140737488355328,
           total = 7035467042882847 / 140737488355328\<rparr>,
          \<lparr>label = ''Minimum Charge Adjustment'', qty = 1,
           each = 373877933908951 / 4398046511104,
           total = 373877933908951 / 4398046511104\<rparr>]
   \<and> minCharge - snd (rawQuote monthlyOnly) - 373877933908951 / 4398046511104 = 1 / 2 ^ 47
   \<and> 373877933908951 / 4398046511104 \<noteq> minCharge - snd (rawQuote monthlyOnly)"
  by code_simp

section \<open>The order of the lines\<close>

text \<open>
  Claim C5 (line ordering). The returned lines are, in this order: carpet rooms, stairs,
  downstairs hallway, upstairs landing, walk-in closet (each in the order standard, reset,
  deluxe), tile, the sectional with its add-ons, the other upholstery items in the order
  of \<^verbatim>\<open>uphKeys\<close> (each followed by its add-ons), the rugs by size and, within a size, by
  package (standard, reset, deluxe), monthly pest control, one-time pest control, the flea
  and tick tier, the zone fee, the minimum-charge adjustment.
\<close>

theorem line_order:
  "lines (computeQuote sel) =
     carpetLines Rooms (carpetRooms sel)
     @ carpetLines Stairs (carpetStairs sel)
     @ carpetLines DownHall (downHall sel)
     @ carpetLines UpLanding (upLanding sel)
     @ carpetLines WalkIn (walkIn sel)
     @ tileLines (tileTotalSqft sel)
     @ sectionalLines (sectionalCushions sel) (sectionalQty sel) (sectionalDeo sel)
         (sectionalProt sel)
     @ concat (map (uphItemLines (uphQty sel) (uphDeo sel) (uphProt sel))
         [Ottoman, AccentChair, DiningChair, Recliner, OversizedChair, ThrowPillow, Loveseat,
          Couch3, Couch4, MattressTwin, MattressFull, MattressQueen, MattressKing])
     @ concat (map (rugSizeLines (rugPackages sel))
         [Small, Medium, Large, XLarge, XXLarge, Huge, Massive])
     @ pestMonthlyLines (pestMonthly sel)
     @ pestOneTimeLines (pestOneTime sel)
     @ fleaLines (pestHomeSqft sel)
     @ zoneLines (zone sel)
     @ minChargeLines (snd (rawQuote sel))"
  by (simp add: computeQuote_emit orderedLines_def rawLines_def categoryLines_def
      lateLines_def rawQuote_emit uphLines_def rugLines_def uphKeys_def rugSizes_def)

section \<open>Selections with nothing, or with one carpet pair only\<close>

lemma uphLines_none: "list_all (\<lambda>k. qtys k = 0) uphKeys \<Longrightarrow> uphLines qtys deo prot = []"
  by (simp add: uphLines_def uphItemLines_def list_all_iff)

lemma rugLines_none:
  "list_all (\<lambda>sz. list_all (\<lambda>p. rugs sz p = 0) pkgKeys) rugSizes \<Longrightarrow> rugLines rugs = []"
  by (simp add: rugLines_def rugSizeLines_def pkgKeys_def list_all_iff)

lemma noOtherServices_lines:
  assumes "noOtherServices sel"
  shows "categoryLines sel =
     carpetLines Rooms (carpetRooms sel) @ carpetLines Stairs (carpetStairs sel)
     @ carpetLines DownHall (downHall sel) @ carpetLines UpLanding (upLanding sel)
     @ carpetLines WalkIn (walkIn sel)"
    and "lateLines sel = zoneLines (zone sel)"
proof -
  from assms have "uphLines (uphQty sel) (uphDeo sel) (uphProt sel) = []"
    unfolding noOtherServices_def by (intro uphLines_none) (simp add: list_all_iff)
  moreover from assms have "rugLines (rugPackages sel) = []"
    unfolding noOtherServices_def by (intro rugLines_none) simp
  moreover from assms have "tileLines (tileTotalSqft sel) = []"
    and "sectionalLines (sectionalCushions sel) (sectionalQty sel) (sectionalDeo sel)
           (sectionalProt sel) = []"
    by (simp_all add: noOtherServices_def tileLines_def sectionalLines_def)
  ultimately show "categoryLines sel =
     carpetLines Rooms (carpetRooms sel) @ carpetLines Stairs (carpetStairs sel)
     @ carpetLines DownHall (downHall sel) @ carpetLines UpLanding (upLanding sel)
     @ carpetLines WalkIn (walkIn sel)"
    by (simp add: categoryLines_def)
  from assms show "lateLines sel = zoneLines (zone sel)"
    by (simp add: noOtherServices_def lateLines_def pestMonthlyLines_def
        pestOneTimeLines_def fleaLines_def)
qed

lemma nothingSelected_lines:
  assumes "nothingSelected sel"
  shows "categoryLines sel = []" and "lateLines sel = zoneLines (zone sel)"
proof -
  from assms have other: "noOtherServices sel"
    by (simp add: nothingSelected_def)
  from assms have "carpetLines a (carpetQty sel a) = []" for a
    by (cases a) (simp_all add: nothingSelected_def areas_def pkgKeys_def carpetLines_def)
  from this [of Rooms] this [of Stairs] this [of DownHall] this [of UpLanding]
    this [of WalkIn]
  have "carpetLines Rooms (carpetRooms sel) = []"
    "carpetLines Stairs (carpetStairs sel) = []"
    "carpetLines DownHall (downHall sel) = []"
    "carpetLines UpLanding (upLanding sel) = []"
    "carpetLines WalkIn (walkIn sel) = []"
    by simp_all
  then show "categoryLines sel = []"
    by (simp add: noOtherServices_lines(1) [OF other])
  show "lateLines sel = zoneLines (zone sel)"
    by (rule noOtherServices_lines(2) [OF other])
qed


lemma zone_fee_arithmetic:
  "addDouble 0 45 = 45" "subDouble 135 45 = 90" "addDouble 45 90 = 135"
  by code_simp+

theorem empty_selection_local:
  assumes "nothingSelected sel" and "zone sel \<noteq> ''extended''"
  shows "lines (computeQuote sel) = [] \<and> summary.total (computeQuote sel) = 0"
  using assms
  by (simp add: computeQuote_emit orderedLines_def rawLines_def rawSub_def
      nothingSelected_lines zoneLines_def minChargeLines_def sumFrom_simps sumTotals_Nil)

text \<open>Witness for C8 as amended: the initial state of the component, zone local.\<close>

theorem empty_selection_local_witness:
  "nothingSelected (initialSelection ''local'')
   \<and> zone (initialSelection ''local'') \<noteq> ''extended''
   \<and> lines (computeQuote (initialSelection ''local'')) = []
   \<and> summary.total (computeQuote (initialSelection ''local'')) = 0"
proof -
  have h1: "nothingSelected (initialSelection ''local'')"
    by code_simp
  have h2: "zone (initialSelection ''local'') \<noteq> ''extended''"
    by code_simp
  show ?thesis
    using h1 h2 empty_selection_local [OF h1 h2] by simp
qed

text \<open>
  Counterexample to C8 as stated: in the initial state with the zone set to extended
  every quantity is 0 and no flag is set, yet the quote has two lines and totals 135.
\<close>

theorem empty_selection_extended_counterexample:
  "nothingSelected (initialSelection ''extended'')
   \<and> lines (computeQuote (initialSelection ''extended''))
       = [\<lparr>label = ''Service Zone Fee'', qty = 1, each = 45, total = 45\<rparr>,
          \<lparr>label = ''Minimum Charge Adjustment'', qty = 1, each = 90, total = 90\<rparr>]
   \<and> lines (computeQuote (initialSelection ''extended'')) \<noteq> []
   \<and> summary.total (computeQuote (initialSelection ''extended'')) = 135
   \<and> summary.total (computeQuote (initialSelection ''extended'')) \<noteq> 0"
  by code_simp

text \<open>
  Claim C9 (zone fee alone). If the zone is extended, every quantity is 0 and every flag
  is off, the quote is exactly the "Service Zone Fee" line of 45 followed by the
  "Minimum Charge Adjustment" line of 90, and the total is 135.
\<close>

theorem zone_fee_alone:
  assumes "nothingSelected sel" and "zone sel = ''extended''"
  shows "lines (computeQuote sel)
           = [\<lparr>label = ''Service Zone Fee'', qty = 1, each = 45, total = 45\<rparr>,
              \<lparr>label = ''Minimum Charge Adjustment'', qty = 1, each = 90, total = 90\<rparr>]
         \<and> summary.total (computeQuote sel) = 135"
  using assms
  by (simp add: computeQuote_emit orderedLines_def rawLines_def rawSub_def
      nothingSelected_lines zoneLines_def minChargeLines_def flatLine_def sumFrom_simps
      sumTotals_Nil zone_fee_arithmetic)

text \<open>Witness for C9: nothing selected, zone extended, nine cushions entered.\<close>

theorem zone_fee_alone_witness:
  "nothingSelected extendedNine
   \<and> zone extendedNine = ''extended''
   \<and> lines (computeQuote extendedNine)
       = [\<lparr>label = ''Service Zone Fee'', qty = 1, each = 45, total = 45\<rparr>,
          \<lparr>label = ''Minimum Charge Adjustment'', qty = 1, each = 90, total = 90\<rparr>]
   \<and> summary.total (computeQuote extendedNine) = 135"
proof -
  have h1: "nothingSelected extendedNine"
    by code_simp
  have h2: "zone extendedNine = ''extended''"
    by code_simp
  show ?thesis
    using h1 h2 zone_fee_alone [OF h1 h2] by simp
qed




section \<open>The total is 0 or at least the minimum charge\<close>

lemma mathRound_nonneg: "0 \<le> x \<Longrightarrow> 0 \<le> mathRound x"
  by (simp add: mathRound_def)

lemma deoEach_nonneg: "0 \<le> b \<Longrightarrow> 0 \<le> deoEach b"
  by (simp add: deoEach_def deodorizerCap_def deodorizerPct_def mathRound_nonneg)

lemma fabricEach_nonneg: "0 \<le> b \<Longrightarrow> 0 \<le> fabricEach b"
  by (simp add: fabricEach_def fabricProtectorCap_def fabricProtectorPct_def mathRound_nonneg)

lemma carpetsPrice_pos: "0 < carpetsPrice a k"
  by (cases a; cases k) simp_all

lemma upholsteryPrice_nonneg: "0 \<le> upholsteryPrice k"
  by (cases k) simp_all

lemma rugsPrice_pos: "0 < rugsPrice sz p"
  by (cases sz; cases p) simp_all

lemma sectionalBase_nonneg: "0 \<le> sectionalBase c"
  by (simp add: sectionalBase_def sectionalPrices_def orZero_def)

lemma carpetLines_nonneg:
  "(\<And>k. 0 \<le> qtys k) \<Longrightarrow> l \<in> set (carpetLines a qtys) \<Longrightarrow> 0 \<le> line.total l"
  using carpetsPrice_pos [of a] by (auto simp: set_carpetLines carpetLine_def less_imp_le)

lemma tileLines_nonneg: "l \<in> set (tileLines sqft) \<Longrightarrow> 0 \<le> line.total l"
  by (auto simp: tileLines_def split: if_splits)

lemma sectionalLines_nonneg: "l \<in> set (sectionalLines c q deo prot) \<Longrightarrow> 0 \<le> line.total l"
  using sectionalBase_nonneg [of c]
  by (auto simp: sectionalLines_def sectionalLine_def addOnLine_def deoEach_nonneg
      fabricEach_nonneg split: if_splits)

lemma uphLines_nonneg:
  "(\<And>k. k \<in> set uphKeys \<Longrightarrow> 0 \<le> qtys k) \<Longrightarrow> l \<in> set (uphLines qtys deo prot)
   \<Longrightarrow> 0 \<le> line.total l"
  by (auto simp: set_uphLines uphItemLines_def uphLine_def addOnLine_def deoEach_nonneg
      fabricEach_nonneg upholsteryPrice_nonneg split: if_splits)

lemma rugLines_nonneg:
  "(\<And>sz p. 0 \<le> rugs sz p) \<Longrightarrow> l \<in> set (rugLines rugs) \<Longrightarrow> 0 \<le> line.total l"
  using rugsPrice_pos
  by (auto simp: set_rugLines set_rugSizeLines rugLine_def less_imp_le)

lemma lateLines_nonneg: "l \<in> set (lateLines sel) \<Longrightarrow> 0 \<le> line.total l"
proof -
  have "0 \<le> pestMonthlyPrice" and "0 \<le> pestOneTimePrice"
    by (simp_all add: pestMonthlyPrice_def pestOneTimePrice_def toDouble_nonneg)
  then show "l \<in> set (lateLines sel) \<Longrightarrow> 0 \<le> line.total l"
    by (auto simp: lateLines_def pestMonthlyLines_def pestOneTimeLines_def fleaLines_def
        zoneLines_def flatLine_def split: if_splits)
qed

lemma sumFrom_nonneg:
  "0 \<le> s \<Longrightarrow> (\<And>l. l \<in> set ls \<Longrightarrow> 0 \<le> line.total l) \<Longrightarrow> 0 \<le> sumFrom s ls"
proof (induction ls arbitrary: s)
  case Nil
  then show ?case by (simp add: sumFrom_Nil)
next
  case (Cons l ls)
  from Cons.prems have "0 \<le> addDouble s (line.total l)"
    by (simp add: addDouble_def toDouble_nonneg)
  with Cons show ?case
    by (simp add: sumFrom_Cons)
qed

lemma nonNegative_carpetQty:
  assumes "nonNegative sel"
  shows "0 \<le> carpetQty sel a k"
  using assms by (cases a; cases k) (simp_all add: nonNegative_def areas_def pkgKeys_def)

lemma nonNegative_rugPackages:
  assumes "nonNegative sel"
  shows "0 \<le> rugPackages sel sz p"
  using assms by (cases sz; cases p) (simp_all add: nonNegative_def rugSizes_def pkgKeys_def)

lemma nonNegative_uphQty:
  assumes "nonNegative sel" and "k \<in> set uphKeys"
  shows "0 \<le> uphQty sel k"
  using assms by (simp add: nonNegative_def list_all_iff)

lemma categoryLines_nonneg:
  assumes "nonNegative sel" and "l \<in> set (categoryLines sel)"
  shows "0 \<le> line.total l"
proof -
  from assms(2) consider
      (carpet) a where "l \<in> set (carpetLines a (carpetQty sel a))"
    | (tile) "l \<in> set (tileLines (tileTotalSqft sel))"
    | (sectional) "l \<in> set (sectionalLines (sectionalCushions sel) (sectionalQty sel)
         (sectionalDeo sel) (sectionalProt sel))"
    | (uph) "l \<in> set (uphLines (uphQty sel) (uphDeo sel) (uphProt sel))"
    | (rug) "l \<in> set (rugLines (rugPackages sel))"
    unfolding categoryLines_def
    using carpetQty.simps [of sel, symmetric] by (auto simp del: carpetQty.simps)
  then show ?thesis
  proof cases
    case carpet then show ?thesis
      using nonNegative_carpetQty [OF assms(1)] by (intro carpetLines_nonneg)
  next
    case tile then show ?thesis by (rule tileLines_nonneg)
  next
    case sectional then show ?thesis by (rule sectionalLines_nonneg)
  next
    case uph then show ?thesis
      using nonNegative_uphQty [OF assms(1)] by (intro uphLines_nonneg)
  next
    case rug then show ?thesis
      using nonNegative_rugPackages [OF assms(1)] by (intro rugLines_nonneg)
  qed
qed

lemma rawSub_nonneg:
  assumes "nonNegative sel"
  shows "0 \<le> rawSub sel"
proof -
  have "0 \<le> sumTotals (categoryLines sel)"
    unfolding sumTotals_def
    by (rule sum_list_nonneg) (auto simp: categoryLines_nonneg [OF assms])
  then show ?thesis
    unfolding rawSub_def by (rule sumFrom_nonneg) (rule lateLines_nonneg)
qed

text \<open>
  Claim C10. If every numeric input is non-negative, the returned total is 0 or at least
  the minimum charge: it is never strictly between 0 and the minimum charge, and never
  negative.
\<close>

theorem total_zero_or_minimum:
  assumes "nonNegative sel"
  shows "(summary.total (computeQuote sel) = 0 \<or> minCharge \<le> summary.total (computeQuote sel))
         \<and> \<not> (0 < summary.total (computeQuote sel)
               \<and> summary.total (computeQuote sel) < minCharge)
         \<and> 0 \<le> summary.total (computeQuote sel)"
  using rawSub_nonneg [OF assms]
  by (simp add: quote_total_cases minCharge_def)

text \<open>Witness for C10: one standard room totals 135, the initial selection totals 0.\<close>

theorem total_zero_or_minimum_witness:
  "nonNegative oneRoom \<and> summary.total (computeQuote oneRoom) = 135
   \<and> nonNegative (initialSelection ''local'')
   \<and> summary.total (computeQuote (initialSelection ''local'')) = 0"
proof -
  have h1: "nonNegative oneRoom"
    by code_simp
  have h2: "nonNegative (initialSelection ''local'')"
    by code_simp
  have v1: "0 < summary.total (computeQuote oneRoom)
      \<and> summary.total (computeQuote oneRoom) \<le> 135"
    by code_simp
  have v2: "summary.total (computeQuote (initialSelection ''local'')) < 135"
    by code_simp
  from total_zero_or_minimum [OF h1] v1
  have "summary.total (computeQuote oneRoom) = 135"
    by (simp add: minCharge_def)
  moreover from total_zero_or_minimum [OF h2] v2
  have "summary.total (computeQuote (initialSelection ''local'')) = 0"
    by (simp add: minCharge_def)
  ultimately show ?thesis
    using h1 h2 by simp
qed

section \<open>Invariants of the summary\<close>



























section \<open>Add-ons and the sectional\<close>

lemma sectionalLines_in_quote:
  "set (sectionalLines (sectionalCushions sel) (sectionalQty sel) (sectionalDeo sel)
      (sectionalProt sel)) \<subseteq> set (lines (computeQuote sel))"
  by (auto simp: computeQuote_emit orderedLines_def rawLines_def categoryLines_def)




text \<open>
  Claim C6 (sectional lookup miss). With a positive sectional quantity and a cushion count
  below 4 or above 12, the price table has no entry, the base price is 0, the sectional
  line is returned with unit price 0 and total 0, and each enabled add-on line is
  returned with unit price \<open>min cap (round (0 * pct)) = 0\<close> and total 0.
\<close>

theorem sectional_lookup_miss:
  assumes "0 < sectionalQty sel"
    and "sectionalCushions sel < 4 \<or> 12 < sectionalCushions sel"
  shows "sectionalPrices (sectionalCushions sel) = None
     \<and> sectionalBase (sectionalCushions sel) = 0
     \<and> \<lparr>label = ''Sectional - '' @ numberString (sectionalCushions sel) @ '' cushions'',
         qty = sectionalQty sel, each = 0, total = 0\<rparr> \<in> set (lines (computeQuote sel))
     \<and> deoEach 0 = 0 \<and> fabricEach 0 = 0
     \<and> (sectionalDeo sel \<longrightarrow>
          \<lparr>label = ''Sectional - Deodorizer'', qty = sectionalQty sel, each = 0, total = 0\<rparr>
            \<in> set (lines (computeQuote sel)))
     \<and> (sectionalProt sel \<longrightarrow>
          \<lparr>label = ''Sectional - Fabric Protector'', qty = sectionalQty sel, each = 0,
           total = 0\<rparr> \<in> set (lines (computeQuote sel)))"
proof -
  from assms(2) have none: "sectionalPrices (sectionalCushions sel) = None"
    by (auto simp: sectionalPrices_def)
  then have base: "sectionalBase (sectionalCushions sel) = 0"
    by (simp add: sectionalBase_def)
  have zero: "deoEach 0 = 0" "fabricEach 0 = 0"
    by code_simp+
  show ?thesis
    using assms(1) sectionalLines_in_quote [of sel]
    by (auto simp: none base zero sectionalLines_def sectionalLine_def addOnLine_def)
qed

text \<open>Witness for C6: two sectionals of 13 cushions, both add-ons on.\<close>

theorem sectional_lookup_miss_witness:
  "0 < sectionalQty (mattressesAndSectionals 13)
   \<and> (sectionalCushions (mattressesAndSectionals 13) < 4
       \<or> 12 < sectionalCushions (mattressesAndSectionals 13))
   \<and> \<lparr>label = ''Sectional - 13 cushions'', qty = 2, each = 0, total = 0\<rparr>
        \<in> set (lines (computeQuote (mattressesAndSectionals 13)))
   \<and> \<lparr>label = ''Sectional - Deodorizer'', qty = 2, each = 0, total = 0\<rparr>
        \<in> set (lines (computeQuote (mattressesAndSectionals 13)))
   \<and> \<lparr>label = ''Sectional - Fabric Protector'', qty = 2, each = 0, total = 0\<rparr>
        \<in> set (lines (computeQuote (mattressesAndSectionals 13)))"
proof -
  let ?sel = "mattressesAndSectionals 13"
  have h1: "0 < sectionalQty ?sel"
    by code_simp
  have h2: "sectionalCushions ?sel < 4 \<or> 12 < sectionalCushions ?sel"
    by code_simp
  have v: "sectionalQty ?sel = 2" "sectionalDeo ?sel" "sectionalProt ?sel"
    "''Sectional - '' @ numberString (sectionalCushions ?sel) @ '' cushions''
       = ''Sectional - 13 cushions''"
    by code_simp+
  from sectional_lookup_miss [OF h1 h2]
  have "\<lparr>label = ''Sectional - '' @ numberString (sectionalCushions ?sel) @ '' cushions'',
         qty = sectionalQty ?sel, each = 0, total = 0\<rparr> \<in> set (lines (computeQuote ?sel))"
    and "sectionalDeo ?sel \<longrightarrow>
          \<lparr>label = ''Sectional - Deodorizer'', qty = sectionalQty ?sel, each = 0, total = 0\<rparr>
            \<in> set (lines (computeQuote ?sel))"
    and "sectionalProt ?sel \<longrightarrow>
          \<lparr>label = ''Sectional - Fabric Protector'', qty = sectionalQty ?sel, each = 0,
           total = 0\<rparr> \<in> set (lines (computeQuote ?sel))"
    by blast+
  from this [unfolded v] show ?thesis
    using h1 h2 v(2,3) by simp
qed

section \<open>Flea and tick tiers\<close>

text \<open>
  The part of claim C3 the engine meets: for a square footage above 0 and up to 1600 the
  quote has exactly one flea and tick line, priced 149; above 1600 and up to 3200 exactly
  one, priced 300; above 3200 it has no flea and tick line at all, neither priced nor
  label-only.
\<close>

theorem flea_tiering:
  "(0 < pestHomeSqft sel \<and> pestHomeSqft sel \<le> 1600 \<longrightarrow>
      filter isFleaTick (lines (computeQuote sel))
        = [\<lparr>label = ''Move-Out Flea and Tick (AL only)'', qty = 1, each = flea1600,
            total = flea1600\<rparr>])
   \<and> (1600 < pestHomeSqft sel \<and> pestHomeSqft sel \<le> 3200 \<longrightarrow>
      filter isFleaTick (lines (computeQuote sel))
        = [\<lparr>label = ''Move-Out Flea and Tick (AL only)'', qty = 1, each = flea3200,
            total = flea3200\<rparr>])
   \<and> (3200 < pestHomeSqft sel \<longrightarrow> filter isFleaTick (lines (computeQuote sel)) = [])"
  by (simp add: computeQuote_emit orderedLines_flea fleaLines_def flatLine_def flea1600_def
      flea3200_def)

text \<open>The tiers at 1500, 2000 and 5000 square feet.\<close>

theorem flea_tiering_witness:
  "(0 < pestHomeSqft (fleaOnly 1500) \<and> pestHomeSqft (fleaOnly 1500) \<le> 1600)
   \<and> filter isFleaTick (lines (computeQuote (fleaOnly 1500)))
       = [\<lparr>label = ''Move-Out Flea and Tick (AL only)'', qty = 1, each = 149, total = 149\<rparr>]
   \<and> (1600 < pestHomeSqft (fleaOnly 2000) \<and> pestHomeSqft (fleaOnly 2000) \<le> 3200)
   \<and> filter isFleaTick (lines (computeQuote (fleaOnly 2000)))
       = [\<lparr>label = ''Move-Out Flea and Tick (AL only)'', qty = 1, each = 300, total = 300\<rparr>]
   \<and> 3200 < pestHomeSqft (fleaOnly 5000)
   \<and> filter isFleaTick (lines (computeQuote (fleaOnly 5000))) = []"
proof -
  have h1: "0 < pestHomeSqft (fleaOnly 1500) \<and> pestHomeSqft (fleaOnly 1500) \<le> 1600"
    by code_simp
  have h2: "1600 < pestHomeSqft (fleaOnly 2000) \<and> pestHomeSqft (fleaOnly 2000) \<le> 3200"
    by code_simp
  have h3: "3200 < pestHomeSqft (fleaOnly 5000)"
    by code_simp
  show ?thesis
    using h1 h2 h3 flea_tiering [of "fleaOnly 1500"] flea_tiering [of "fleaOnly 2000"]
      flea_tiering [of "fleaOnly 5000"]
    by (simp add: flea1600_def flea3200_def)
qed

text \<open>
  Claim C3 (flea and tick tiering: above 3200 square feet the "requires custom quote"
  condition is surfaced to the caller). The engine does not do that. At 5000 square feet
  line 313 gives the local \<^verbatim>\<open>label\<close> the suffix "- custom quote", the test
  \<^verbatim>\<open>price > 0\<close> of line 315 then skips the push, and the label is lost: the returned
  summary is the empty one, equal to the summary for no square footage at all.
\<close>

theorem custom_quote_not_surfaced:
  "fleaTier 5000 = (''Move-Out Flea and Tick (AL only) - custom quote'', 0)
   \<and> computeQuote (fleaOnly 5000) = \<lparr>lines = [], subtotal = 0, total = 0\<rparr>
   \<and> computeQuote (fleaOnly 5000) = computeQuote (fleaOnly 0)"
  by code_simp

end
